theory Spec2Isabelle
  imports Complex_Main "HOL-Library.Char_ord" "HOL-Library.List_Lexorder"
begin

section \<open>Strings and numbers as the JavaScript source uses them\<close>

text \<open>
  Amounts are JavaScript numbers; they are modelled as \<^typ>\<open>real\<close>, so rounding of
  IEEE doubles, \<open>NaN\<close> and \<open>Infinity\<close> are outside the model. Strings are
  \<^typ>\<open>string\<close> and are compared the way IndexedDB compares string keys
  (lexicographically, character by character).
\<close>

definition digit_char :: "nat \<Rightarrow> char" where
  "digit_char d = ''0123456789'' ! d"

text \<open>\<open>String(n)\<close> and \<open>`${n}`\<close> for a non-negative integer \<open>n\<close>.\<close>

fun show_nat :: "nat \<Rightarrow> string" where
  "show_nat n =
     (if n < 10 then [digit_char n] else show_nat (n div 10) @ [digit_char (n mod 10)])"

declare show_nat.simps [simp del]

definition digit_val :: "char \<Rightarrow> nat option" where
  "digit_val c = map_of (zip ''0123456789'' [0..<10]) c"

text \<open>
  \<open>Number(s)\<close> on a string of decimal digits (\<open>Number('')\<close> is 0, leading zeros
  are accepted). \<open>None\<close> stands for \<open>NaN\<close>; strings in another numeric notation
  (a sign, a fraction, an exponent, blanks) are not modelled and read as \<open>NaN\<close>:
  \<open>closeMonth\<close> applies \<open>Number\<close> only to the parts of a string equal to
  \<open>getCurrentMonth()\<close>.
\<close>

fun Number_from :: "nat \<Rightarrow> string \<Rightarrow> nat option" where
  "Number_from acc [] = Some acc"
| "Number_from acc (c # cs) =
     (case digit_val c of None \<Rightarrow> None | Some d \<Rightarrow> Number_from (10 * acc + d) cs)"

definition Number :: "string \<Rightarrow> nat option" where
  "Number s = Number_from 0 s"

text \<open>\<open>s.padStart(n, c)\<close> with a one-character pad string.\<close>

definition padStart :: "nat \<Rightarrow> char \<Rightarrow> string \<Rightarrow> string" where
  "padStart n c s = replicate (n - length s) c @ s"

text \<open>\<open>s.split(c)\<close> for a one-character separator: never the empty array.\<close>

fun split_on :: "char \<Rightarrow> string \<Rightarrow> string list" where
  "split_on c [] = [] # []"
| "split_on c (x # xs) =
     (if x = c then [] # split_on c xs
      else (case split_on c xs of [] \<Rightarrow> [x] # [] | p # ps \<Rightarrow> (x # p) # ps))"

text \<open>Array destructuring \<open>[a, b] = parts\<close>: a missing element is \<open>undefined\<close>.\<close>

definition element :: "'a list \<Rightarrow> nat \<Rightarrow> 'a option" where
  "element xs i = (if i < length xs then Some (xs ! i) else None)"

text \<open>A template literal \<open>`${x}`\<close> of a string that may be \<open>undefined\<close>.\<close>

definition template :: "string option \<Rightarrow> string" where
  "template x = (case x of None \<Rightarrow> ''undefined'' | Some s \<Rightarrow> s)"

text \<open>\<open>String(n)\<close> of a number that may be \<open>NaN\<close>.\<close>

definition String_of :: "nat option \<Rightarrow> string" where
  "String_of x = (case x of None \<Rightarrow> ''NaN'' | Some n \<Rightarrow> show_nat n)"

text \<open>
  A string with characters outside ASCII is the list of the bytes of its UTF-8
  encoding. The white space and the line terminators of ECMAScript, which
  \<open>String.prototype.trim\<close> removes: TAB, LF, VT, FF, CR, SP, U+00A0, U+1680,
  U+2000 to U+200A, U+2028, U+2029, U+202F, U+205F, U+3000 and U+FEFF.
\<close>

definition white_space :: "string list" where
  "white_space =
     [[CHR 0x09], [CHR 0x0A], [CHR 0x0B], [CHR 0x0C], [CHR 0x0D], [CHR 0x20],
      [CHR 0xC2, CHR 0xA0], [CHR 0xE1, CHR 0x9A, CHR 0x80],
      [CHR 0xE2, CHR 0x80, CHR 0x80], [CHR 0xE2, CHR 0x80, CHR 0x81],
      [CHR 0xE2, CHR 0x80, CHR 0x82], [CHR 0xE2, CHR 0x80, CHR 0x83],
      [CHR 0xE2, CHR 0x80, CHR 0x84], [CHR 0xE2, CHR 0x80, CHR 0x85],
      [CHR 0xE2, CHR 0x80, CHR 0x86], [CHR 0xE2, CHR 0x80, CHR 0x87],
      [CHR 0xE2, CHR 0x80, CHR 0x88], [CHR 0xE2, CHR 0x80, CHR 0x89],
      [CHR 0xE2, CHR 0x80, CHR 0x8A], [CHR 0xE2, CHR 0x80, CHR 0xA8],
      [CHR 0xE2, CHR 0x80, CHR 0xA9], [CHR 0xE2, CHR 0x80, CHR 0xAF],
      [CHR 0xE2, CHR 0x81, CHR 0x9F], [CHR 0xE3, CHR 0x80, CHR 0x80],
      [CHR 0xEF, CHR 0xBB, CHR 0xBF]]"

text \<open>The string without the characters at its start that \<open>blank\<close> accepts; an
  encoding has at most three bytes.\<close>

fun strip_start :: "(string \<Rightarrow> bool) \<Rightarrow> string \<Rightarrow> string" where
  "strip_start blank (a # b # c # s) =
     (if blank [a] then strip_start blank (b # c # s)
      else if blank [a, b] then strip_start blank (c # s)
      else if blank [a, b, c] then strip_start blank s
      else a # b # c # s)"
| "strip_start blank [a, b] =
     (if blank [a] then strip_start blank [b] else if blank [a, b] then [] else [a, b])"
| "strip_start blank [a] = (if blank [a] then [] else [a])"
| "strip_start blank [] = []"

text \<open>\<open>s.trim()\<close>\<close>

definition trim :: "string \<Rightarrow> string" where
  "trim s =
     rev (strip_start (\<lambda>w. rev w \<in> set white_space)
            (rev (strip_start (\<lambda>w. w \<in> set white_space) s)))"

text \<open>
  The clock of one call: \<open>new Date().toISOString()\<close> (UTC) and the local
  \<open>getFullYear()\<close> and \<open>getMonth()\<close> (0 to 11). An operation reads the clock
  once; years are non-negative.
\<close>

record clock =
  toISOString :: string
  getFullYear :: nat
  getMonth :: nat

definition getCurrentMonth :: "clock \<Rightarrow> string" where
  "getCurrentMonth now =
     show_nat (getFullYear now) @ ''-'' @ padStart 2 (CHR ''0'') (show_nat (getMonth now + 1))"

section \<open>Object stores\<close>

text \<open>
  An IndexedDB object store with key path \<open>id\<close> holds at most one record per key and
  lists its records in key order. It is modelled as the list of its records in that
  order; \<open>key\<close> reads the primary key of a record.
\<close>

definition well_keyed :: "('a \<Rightarrow> string) \<Rightarrow> 'a list \<Rightarrow> bool" where
  "well_keyed key xs \<longleftrightarrow> sorted_wrt (<) (map key xs)"

fun store_put :: "('a \<Rightarrow> string) \<Rightarrow> 'a \<Rightarrow> 'a list \<Rightarrow> 'a list" where
  "store_put key r [] = [r]"
| "store_put key r (x # xs) =
     (if key r = key x then r # xs
      else if key r < key x then r # x # xs
      else x # store_put key r xs)"

definition store_get :: "('a \<Rightarrow> string) \<Rightarrow> string \<Rightarrow> 'a list \<Rightarrow> 'a option" where
  "store_get key k xs = find (\<lambda>x. key x = k) xs"

definition store_delete :: "('a \<Rightarrow> string) \<Rightarrow> string \<Rightarrow> 'a list \<Rightarrow> 'a list" where
  "store_delete key k xs = filter (\<lambda>x. key x \<noteq> k) xs"

text \<open>\<open>add\<close> refuses a key that is present (\<open>None\<close> is the ConstraintError).\<close>

definition store_add :: "('a \<Rightarrow> string) \<Rightarrow> 'a \<Rightarrow> 'a list \<Rightarrow> 'a list option" where
  "store_add key r xs =
     (case store_get key (key r) xs of None \<Rightarrow> Some (store_put key r xs) | Some _ \<Rightarrow> None)"

text \<open>\<open>getAllFromIndex(store, index, value)\<close>: the records whose indexed field is
  \<open>value\<close>, in primary-key order.\<close>

definition index_only :: "('a \<Rightarrow> string) \<Rightarrow> string \<Rightarrow> 'a list \<Rightarrow> 'a list" where
  "index_only field v xs = filter (\<lambda>x. field x = v) xs"

text \<open>\<open>getAllFromIndex(store, index)\<close>: all records by indexed field, then by
  primary key.\<close>

definition index_all :: "('a \<Rightarrow> string) \<Rightarrow> 'a list \<Rightarrow> 'a list" where
  "index_all field xs = sort_key field xs"

section \<open>Records (db/schema.js)\<close>

record settings_rec =
  st_id :: string
  st_monthlyIncome :: real
  st_currency :: string
  st_currentMonth :: string
  st_createdAt :: string
  st_updatedAt :: string

record fixed_expense =
  fe_id :: string
  fe_name :: string
  fe_amount :: real
  fe_createdAt :: string
  fe_updatedAt :: string

record category =
  cat_id :: string
  cat_name :: string
  cat_budgetLimit :: real
  cat_color :: string
  cat_icon :: "string option"
  cat_createdAt :: string
  cat_updatedAt :: string

record expense =
  ex_id :: string
  ex_categoryId :: string
  ex_description :: string
  ex_amount :: real
  ex_date :: string
  ex_month :: string
  ex_createdAt :: string
  ex_updatedAt :: string

text \<open>\<open>{...cat, spent, remaining, percentage}\<close>\<close>

record category_spending = category +
  spent :: real
  remaining :: real
  percentage :: real

record summary =
  sum_monthlyIncome :: real
  sum_totalFixedExpenses :: real
  sum_totalBudgeted :: real
  sum_totalSpent :: real
  sum_totalSaved :: real
  sum_currency :: string

record archive =
  ar_id :: string
  ar_month :: string
  ar_closedAt :: string
  ar_summary :: summary
  ar_fixedExpenses :: "fixed_expense list"
  ar_categories :: "category_spending list"
  ar_expenses :: "expense list"

text \<open>The five object stores and the module variable \<open>dbInstance\<close> (is the
  connection open?).\<close>

record database =
  settings :: "settings_rec list"
  fixedExpenses :: "fixed_expense list"
  categories :: "category list"
  expenses :: "expense list"
  monthlyArchives :: "archive list"
  dbInstance :: bool

text \<open>
  What a rejected promise carries: \<open>Error msg\<close> is \<open>throw new Error(msg)\<close>;
  \<open>ConstraintError\<close> (\<open>add\<close> of a present key) and \<open>DataError\<close> (\<open>put\<close> of
  a value without key) come from IndexedDB; \<open>Interrupted\<close> is a call cut short by
  an abrupt termination.
\<close>

datatype error = Error string | ConstraintError | DataError | Interrupted

definition AlreadyClosedError :: "string \<Rightarrow> error" where
  "AlreadyClosedError targetMonth =
     Error (''El mes '' @ targetMonth @ '' ya fue cerrado anteriormente.'')"

text \<open>The messages of the source; a non-ASCII letter is its two UTF-8 bytes.\<close>

definition InvalidBackupError :: error where
  "InvalidBackupError = Error (''Archivo de backup inv'' @ [CHR 0xC3, CHR 0xA1] @ ''lido'')"

definition fixed_expense_not_found :: error where
  "fixed_expense_not_found = Error ''Gasto fijo no encontrado''"

definition category_not_found :: error where
  "category_not_found = Error (''Categor'' @ [CHR 0xC3, CHR 0xAD] @ ''a no encontrada'')"

definition expense_not_found :: error where
  "expense_not_found = Error ''Gasto no encontrado''"

section \<open>Opening the database (db/database.js)\<close>

definition initializeSettings :: "clock \<Rightarrow> database \<Rightarrow> database" where
  "initializeSettings now s =
     (case store_get st_id ''main'' (settings s) of
        Some _ \<Rightarrow> s
      | None \<Rightarrow>
          s\<lparr>settings := store_put st_id
               \<lparr>st_id = ''main'', st_monthlyIncome = 0, st_currency = ''Q'',
                st_currentMonth = getCurrentMonth now,
                st_createdAt = toISOString now, st_updatedAt = toISOString now\<rparr>
               (settings s)\<rparr>)"

text \<open>\<open>getDB\<close>: the open connection is reused; opening runs
  \<open>initializeSettings\<close>. Failure to open the database is not modelled.\<close>

definition getDB :: "clock \<Rightarrow> database \<Rightarrow> database" where
  "getDB now s = (if dbInstance s then s else initializeSettings now (s\<lparr>dbInstance := True\<rparr>))"

section \<open>Small JavaScript idioms\<close>

text \<open>\<open>x || d\<close> on a string that may be absent: the empty string is falsy too.\<close>

definition or_default :: "string option \<Rightarrow> string \<Rightarrow> string" where
  "or_default x d = (case x of None \<Rightarrow> d | Some v \<Rightarrow> if v = [] then d else v)"

text \<open>\<open>{...current, ...updates}\<close>, field by field: a field of the patch wins when
  the patch has it.\<close>

definition spread :: "'a \<Rightarrow> 'a option \<Rightarrow> 'a" where
  "spread current update = (case update of None \<Rightarrow> current | Some v \<Rightarrow> v)"

text \<open>\<open>xs.reduce((sum, e) => sum + f(e), 0)\<close>\<close>

definition reduce_sum :: "('a \<Rightarrow> real) \<Rightarrow> 'a list \<Rightarrow> real" where
  "reduce_sum f xs = foldl (\<lambda>sum e. sum + f e) 0 xs"

section \<open>Transactions\<close>

text \<open>
  An IndexedDB transaction applies its write requests in order and commits them
  together at \<open>tx.done\<close>; when the process stops before the commit, none of them
  is applied. \<open>crash = Some k\<close> says that the process stops abruptly at the
  \<open>k\<close>-th write request of the call (counted from 0, the commit counting as one
  request); \<open>crash = None\<close> that it does not. \<open>None\<close> as a result is the
  transaction that did not commit.
\<close>

definition transaction ::
  "(database \<Rightarrow> database) list \<Rightarrow> nat option \<Rightarrow> database \<Rightarrow> database option" where
  "transaction requests crash db =
     (case crash of
        None \<Rightarrow> Some (fold (\<lambda>request. request) requests db)
      | Some k \<Rightarrow>
          if k \<le> length requests then None
          else Some (fold (\<lambda>request. request) requests db))"

section \<open>Settings operations\<close>

definition getSettings :: "clock \<Rightarrow> database \<Rightarrow> database \<times> settings_rec option" where
  "getSettings now s = (let db = getDB now s in (db, store_get st_id ''main'' (settings db)))"

text \<open>The patches the callers send. A patch cannot change \<open>id\<close>, \<open>createdAt\<close>
  or add a field the record type lacks.\<close>

record settings_updates =
  su_monthlyIncome :: "real option"
  su_currency :: "string option"
  su_currentMonth :: "string option"

text \<open>With no current record the merged object has no \<open>id\<close>, and \<open>put\<close>
  rejects it.\<close>

definition updateSettings ::
  "clock \<Rightarrow> settings_updates \<Rightarrow> database \<Rightarrow> database \<times> (error + settings_rec)" where
  "updateSettings now updates s =
     (let db = getDB now s;
          (db, current) = getSettings now db
      in case current of
           None \<Rightarrow> (db, Inl DataError)
         | Some cur \<Rightarrow>
             (let updated = cur
                    \<lparr>st_monthlyIncome := spread (st_monthlyIncome cur) (su_monthlyIncome updates),
                     st_currency := spread (st_currency cur) (su_currency updates),
                     st_currentMonth := spread (st_currentMonth cur) (su_currentMonth updates),
                     st_updatedAt := toISOString now\<rparr>
              in (db\<lparr>settings := store_put st_id updated (settings db)\<rparr>, Inr updated)))"

section \<open>Fixed expenses operations\<close>

definition getAllFixedExpenses :: "clock \<Rightarrow> database \<Rightarrow> database \<times> fixed_expense list" where
  "getAllFixedExpenses now s =
     (let db = getDB now s in (db, index_all fe_createdAt (fixedExpenses db)))"

record fixed_expense_data =
  fd_name :: "string option"
  fd_amount :: "real option"

text \<open>\<open>newId\<close> is the value \<open>generateId()\<close> draws; \<open>fd_amount = None\<close> is an
  amount that \<open>parseFloat\<close> does not read.\<close>

definition createFixedExpense ::
  "clock \<Rightarrow> string \<Rightarrow> fixed_expense_data \<Rightarrow> database \<Rightarrow> database \<times> (error + fixed_expense)" where
  "createFixedExpense now newId data s =
     (let db = getDB now s;
          expense = \<lparr>fe_id = newId,
                     fe_name = (case fd_name data of None \<Rightarrow> [] | Some n \<Rightarrow> trim n),
                     fe_amount = (case fd_amount data of None \<Rightarrow> 0 | Some a \<Rightarrow> a),
                     fe_createdAt = toISOString now, fe_updatedAt = toISOString now\<rparr>
      in case store_add fe_id expense (fixedExpenses db) of
           None \<Rightarrow> (db, Inl ConstraintError)
         | Some xs \<Rightarrow> (db\<lparr>fixedExpenses := xs\<rparr>, Inr expense))"

record fixed_expense_updates =
  fu_name :: "string option"
  fu_amount :: "real option"

definition updateFixedExpense ::
  "clock \<Rightarrow> string \<Rightarrow> fixed_expense_updates \<Rightarrow> database \<Rightarrow> database \<times> (error + fixed_expense)" where
  "updateFixedExpense now ident updates s =
     (let db = getDB now s
      in case store_get fe_id ident (fixedExpenses db) of
           None \<Rightarrow> (db, Inl fixed_expense_not_found)
         | Some current \<Rightarrow>
             (let updated = current
                    \<lparr>fe_name := spread (fe_name current) (fu_name updates),
                     fe_amount := spread (fe_amount current) (fu_amount updates),
                     fe_updatedAt := toISOString now\<rparr>
              in (db\<lparr>fixedExpenses := store_put fe_id updated (fixedExpenses db)\<rparr>, Inr updated)))"

definition deleteFixedExpense :: "clock \<Rightarrow> string \<Rightarrow> database \<Rightarrow> database" where
  "deleteFixedExpense now ident s =
     (let db = getDB now s in db\<lparr>fixedExpenses := store_delete fe_id ident (fixedExpenses db)\<rparr>)"

section \<open>Categories operations\<close>

definition getAllCategories :: "clock \<Rightarrow> database \<Rightarrow> database \<times> category list" where
  "getAllCategories now s =
     (let db = getDB now s in (db, index_all cat_createdAt (categories db)))"

definition getCategory :: "clock \<Rightarrow> string \<Rightarrow> database \<Rightarrow> database \<times> category option" where
  "getCategory now ident s = (let db = getDB now s in (db, store_get cat_id ident (categories db)))"

record category_data =
  cd_name :: "string option"
  cd_budgetLimit :: "real option"
  cd_color :: "string option"
  cd_icon :: "string option"

definition createCategory ::
  "clock \<Rightarrow> string \<Rightarrow> category_data \<Rightarrow> database \<Rightarrow> database \<times> (error + category)" where
  "createCategory now newId data s =
     (let db = getDB now s;
          category = \<lparr>cat_id = newId,
                      cat_name = (case cd_name data of None \<Rightarrow> [] | Some n \<Rightarrow> trim n),
                      cat_budgetLimit = (case cd_budgetLimit data of None \<Rightarrow> 0 | Some b \<Rightarrow> b),
                      cat_color = or_default (cd_color data) ''#00d4aa'',
                      cat_icon = (case cd_icon data of None \<Rightarrow> None
                                  | Some i \<Rightarrow> if i = [] then None else Some i),
                      cat_createdAt = toISOString now, cat_updatedAt = toISOString now\<rparr>
      in case store_add cat_id category (categories db) of
           None \<Rightarrow> (db, Inl ConstraintError)
         | Some xs \<Rightarrow> (db\<lparr>categories := xs\<rparr>, Inr category))"

record category_updates =
  cu_name :: "string option"
  cu_budgetLimit :: "real option"
  cu_color :: "string option"

definition updateCategory ::
  "clock \<Rightarrow> string \<Rightarrow> category_updates \<Rightarrow> database \<Rightarrow> database \<times> (error + category)" where
  "updateCategory now ident updates s =
     (let db = getDB now s
      in case store_get cat_id ident (categories db) of
           None \<Rightarrow> (db, Inl category_not_found)
         | Some current \<Rightarrow>
             (let updated = current
                    \<lparr>cat_name := spread (cat_name current) (cu_name updates),
                     cat_budgetLimit := spread (cat_budgetLimit current) (cu_budgetLimit updates),
                     cat_color := spread (cat_color current) (cu_color updates),
                     cat_updatedAt := toISOString now\<rparr>
              in (db\<lparr>categories := store_put cat_id updated (categories db)\<rparr>, Inr updated)))"

text \<open>
  One transaction over the categories and the expenses: the cursor on the
  \<open>categoryId\<close> index deletes every expense of the category, whatever its month,
  then the category is deleted.
\<close>

definition deleteCategory ::
  "clock \<Rightarrow> string \<Rightarrow> nat option \<Rightarrow> database \<Rightarrow> database \<times> (error + unit)" where
  "deleteCategory now ident crash s =
     (let db = getDB now s;
          cursor = index_only ex_categoryId ident (expenses db);
          requests =
            map (\<lambda>e tx. tx\<lparr>expenses := store_delete ex_id (ex_id e) (expenses tx)\<rparr>) cursor
            @ [\<lambda>tx. tx\<lparr>categories := store_delete cat_id ident (categories tx)\<rparr>]
      in case transaction requests crash db of
           None \<Rightarrow> (db, Inl Interrupted)
         | Some db' \<Rightarrow> (db', Inr ()))"

section \<open>Expenses operations\<close>

definition getExpensesForMonth ::
  "clock \<Rightarrow> string option \<Rightarrow> database \<Rightarrow> database \<times> expense list" where
  "getExpensesForMonth now month s =
     (let db = getDB now s;
          targetMonth = or_default month (getCurrentMonth now)
      in (db, index_only ex_month targetMonth (expenses db)))"

definition getExpensesByCategory ::
  "clock \<Rightarrow> string \<Rightarrow> string option \<Rightarrow> database \<Rightarrow> database \<times> expense list" where
  "getExpensesByCategory now categoryId month s =
     (let db = getDB now s;
          (db, allExpenses) = getExpensesForMonth now month db
      in (db, filter (\<lambda>e. ex_categoryId e = categoryId) allExpenses))"

record expense_data =
  ed_categoryId :: string
  ed_description :: "string option"
  ed_amount :: "real option"
  ed_date :: "string option"

definition createExpense ::
  "clock \<Rightarrow> string \<Rightarrow> expense_data \<Rightarrow> database \<Rightarrow> database \<times> (error + expense)" where
  "createExpense now newId data s =
     (let db = getDB now s;
          expenseDate = or_default (ed_date data) (hd (split_on (CHR ''T'') (toISOString now)));
          parts = split_on (CHR ''-'') expenseDate;
          year = element parts 0;
          month = element parts 1;
          expense = \<lparr>ex_id = newId,
                     ex_categoryId = ed_categoryId data,
                     ex_description = (case ed_description data of None \<Rightarrow> [] | Some d \<Rightarrow> trim d),
                     ex_amount = (case ed_amount data of None \<Rightarrow> 0 | Some a \<Rightarrow> a),
                     ex_date = expenseDate,
                     ex_month = template year @ ''-'' @ template month,
                     ex_createdAt = toISOString now, ex_updatedAt = toISOString now\<rparr>
      in case store_add ex_id expense (expenses db) of
           None \<Rightarrow> (db, Inl ConstraintError)
         | Some xs \<Rightarrow> (db\<lparr>expenses := xs\<rparr>, Inr expense))"

text \<open>The patch of \<open>updateExpense\<close> may carry a \<open>month\<close> of its own.\<close>

record expense_updates =
  eu_categoryId :: "string option"
  eu_description :: "string option"
  eu_amount :: "real option"
  eu_date :: "string option"
  eu_month :: "string option"

definition updateExpense ::
  "clock \<Rightarrow> string \<Rightarrow> expense_updates \<Rightarrow> database \<Rightarrow> database \<times> (error + expense)" where
  "updateExpense now ident updates s =
     (let db = getDB now s
      in case store_get ex_id ident (expenses db) of
           None \<Rightarrow> (db, Inl expense_not_found)
         | Some current \<Rightarrow>
             (let month =
                    (case eu_date updates of
                       None \<Rightarrow> ex_month current
                     | Some d \<Rightarrow>
                         if d = [] then ex_month current
                         else (let parts = split_on (CHR ''-'') d
                               in template (element parts 0) @ ''-'' @ template (element parts 1)));
                  updated = current
                    \<lparr>ex_categoryId := spread (ex_categoryId current) (eu_categoryId updates),
                     ex_description := spread (ex_description current) (eu_description updates),
                     ex_amount := spread (ex_amount current) (eu_amount updates),
                     ex_date := spread (ex_date current) (eu_date updates),
                     ex_month := spread (ex_month current) (eu_month updates),
                     ex_month := month,
                     ex_updatedAt := toISOString now\<rparr>
              in (db\<lparr>expenses := store_put ex_id updated (expenses db)\<rparr>, Inr updated)))"

definition deleteExpense :: "clock \<Rightarrow> string \<Rightarrow> database \<Rightarrow> database" where
  "deleteExpense now ident s =
     (let db = getDB now s in db\<lparr>expenses := store_delete ex_id ident (expenses db)\<rparr>)"


section \<open>Export and import\<close>


record backup_data =
  bk_settings :: "settings_rec option"
  bk_fixedExpenses :: "fixed_expense list option"
  bk_categories :: "category list option"
  bk_expenses :: "expense list option"
  bk_monthlyArchives :: "archive list option"

text \<open>A backup document; \<open>data = None\<close> is a document without (or with a falsy)
  \<open>data\<close>, as is a document that is \<open>null\<close>.\<close>

record backup =
  version :: nat
  exportedAt :: string
  appName :: string
  data :: "backup_data option"


text \<open>\<open>xs || []\<close>\<close>

definition or_empty :: "'a list option \<Rightarrow> 'a list" where
  "or_empty xs = (case xs of None \<Rightarrow> [] | Some ys \<Rightarrow> ys)"

text \<open>
  One transaction over all stores: every store is cleared, then the records of the
  backup are put, the settings only when the backup has them. The archive store
  exists in every database of this version, so its two guards are true.
\<close>

definition importData ::
  "clock \<Rightarrow> backup \<Rightarrow> nat option \<Rightarrow> database \<Rightarrow> database \<times> (error + unit)" where
  "importData now backup crash s =
     (case data backup of
        None \<Rightarrow> (s, Inl InvalidBackupError)
      | Some d \<Rightarrow>
          (let db = getDB now s;
               requests =
                 [\<lambda>tx. tx\<lparr>settings := []\<rparr>, \<lambda>tx. tx\<lparr>fixedExpenses := []\<rparr>,
                  \<lambda>tx. tx\<lparr>categories := []\<rparr>, \<lambda>tx. tx\<lparr>expenses := []\<rparr>,
                  \<lambda>tx. tx\<lparr>monthlyArchives := []\<rparr>]
                 @ (case bk_settings d of
                      None \<Rightarrow> []
                    | Some st \<Rightarrow> [\<lambda>tx. tx\<lparr>settings := store_put st_id st (settings tx)\<rparr>])
                 @ map (\<lambda>item tx. tx\<lparr>fixedExpenses := store_put fe_id item (fixedExpenses tx)\<rparr>)
                     (or_empty (bk_fixedExpenses d))
                 @ map (\<lambda>item tx. tx\<lparr>categories := store_put cat_id item (categories tx)\<rparr>)
                     (or_empty (bk_categories d))
                 @ map (\<lambda>item tx. tx\<lparr>expenses := store_put ex_id item (expenses tx)\<rparr>)
                     (or_empty (bk_expenses d))
                 @ map (\<lambda>item tx. tx\<lparr>monthlyArchives := store_put ar_id item (monthlyArchives tx)\<rparr>)
                     (or_empty (bk_monthlyArchives d))
           in case transaction requests crash db of
                None \<Rightarrow> (db, Inl Interrupted)
              | Some db' \<Rightarrow> (db', Inr ())))"

section \<open>Monthly archive operations\<close>

definition getArchive :: "clock \<Rightarrow> string \<Rightarrow> database \<Rightarrow> database \<times> archive option" where
  "getArchive now month s =
     (let db = getDB now s in (db, store_get ar_id month (monthlyArchives db)))"

definition deleteArchive :: "clock \<Rightarrow> string \<Rightarrow> database \<Rightarrow> database" where
  "deleteArchive now month s =
     (let db = getDB now s in db\<lparr>monthlyArchives := store_delete ar_id month (monthlyArchives db)\<rparr>)"

text \<open>
  The month after \<open>targetMonth\<close> as \<open>closeMonth\<close> computes it:
  \<open>[year, monthNum] = targetMonth.split('-').map(Number)\<close>; a missing
  \<open>monthNum\<close> behaves like \<open>NaN\<close> in both of its uses.
\<close>

definition nextMonth :: "string \<Rightarrow> string" where
  "nextMonth targetMonth =
     (let parts = map Number (split_on (CHR ''-'') targetMonth);
          year = (case element parts 0 of None \<Rightarrow> None | Some y \<Rightarrow> y);
          monthNum = (case element parts 1 of None \<Rightarrow> None | Some m \<Rightarrow> m)
      in if monthNum = Some 12 then String_of (map_option (\<lambda>y. y + 1) year) @ ''-01''
         else String_of year @ ''-''
              @ padStart 2 (CHR ''0'') (String_of (map_option (\<lambda>m. m + 1) monthNum)))"

text \<open>
  \<open>closeMonth\<close>: the archive is put and the expenses of the month are deleted in
  one transaction over the archives and the expenses; the settings are updated
  after it, outside the transaction, when the month closed is the month of the
  clock.
\<close>

definition closeMonth ::
  "clock \<Rightarrow> string option \<Rightarrow> nat option \<Rightarrow> database \<Rightarrow> database \<times> (error + archive)" where
  "closeMonth now month crash s =
     (let targetMonth = or_default month (getCurrentMonth now);
          (db, existing) = getArchive now targetMonth s
      in case existing of
           Some _ \<Rightarrow> (db, Inl (AlreadyClosedError targetMonth))
         | None \<Rightarrow>
             (let (db, settings) = getSettings now db;
                  (db, fixedExpenses) = getAllFixedExpenses now db;
                  (db, categories) = getAllCategories now db;
                  (db, expenses) = getExpensesForMonth now (Some targetMonth) db;
                  totalFixedExpenses = reduce_sum fe_amount fixedExpenses;
                  totalBudgeted = reduce_sum cat_budgetLimit categories;
                  totalSpent = reduce_sum ex_amount expenses;
                  monthlyIncome = (case settings of None \<Rightarrow> 0 | Some st \<Rightarrow> st_monthlyIncome st);
                  totalSaved = monthlyIncome - totalFixedExpenses - totalSpent;
                  categorySnapshots =
                    map (\<lambda>cat.
                           let catExpenses = filter (\<lambda>e. ex_categoryId e = cat_id cat) expenses;
                               spent = reduce_sum ex_amount catExpenses
                           in category.extend cat
                                (category_spending.fields spent (cat_budgetLimit cat - spent)
                                   (if cat_budgetLimit cat > 0
                                    then spent / cat_budgetLimit cat * 100 else 0)))
                        categories;
                  archive = \<lparr>ar_id = targetMonth,
                             ar_month = targetMonth,
                             ar_closedAt = toISOString now,
                             ar_summary =
                               \<lparr>sum_monthlyIncome = monthlyIncome,
                                sum_totalFixedExpenses = totalFixedExpenses,
                                sum_totalBudgeted = totalBudgeted,
                                sum_totalSpent = totalSpent,
                                sum_totalSaved = totalSaved,
                                sum_currency =
                                  or_default (map_option st_currency settings) ''Q''\<rparr>,
                             ar_fixedExpenses = fixedExpenses,
                             ar_categories = categorySnapshots,
                             ar_expenses = expenses\<rparr>;
                  db = getDB now db;
                  cursor = index_only ex_month targetMonth (database.expenses db);
                  requests =
                    (\<lambda>tx. tx\<lparr>monthlyArchives := store_put ar_id archive (monthlyArchives tx)\<rparr>)
                    # map (\<lambda>e tx. tx\<lparr>database.expenses :=
                                      store_delete ex_id (ex_id e) (database.expenses tx)\<rparr>) cursor
              in case transaction requests crash db of
                   None \<Rightarrow> (db, Inl Interrupted)
                 | Some db' \<Rightarrow>
                     if targetMonth = getCurrentMonth now then
                       (if crash = Some (length requests + 1) then (db', Inl Interrupted)
                        else (case updateSettings now
                                     \<lparr>su_monthlyIncome = None, su_currency = None,
                                      su_currentMonth = Some (nextMonth targetMonth)\<rparr> db' of
                                (db'', Inl e) \<Rightarrow> (db'', Inl e)
                              | (db'', Inr _) \<Rightarrow> (db'', Inr archive)))
                     else (db', Inr archive)))"


section \<open>Helpers (utils/helpers.js)\<close>

definition calculatePercentage :: "real \<Rightarrow> real \<Rightarrow> real" where
  "calculatePercentage val tot =
     (if tot \<le> 0 then 0
      else (let percentage = val / tot * 100 in min 100 (max 0 percentage)))"

text \<open>The formula of the specification, \<open>clamp(0, 100, value / total * 100)\<close> with
  0 for a total that is not positive, written from its words.\<close>

definition clamp :: "real \<Rightarrow> real \<Rightarrow> real \<Rightarrow> real" where
  "clamp lo hi x = (if x < lo then lo else if hi < x then hi else x)"

definition spec_percentage :: "real \<Rightarrow> real \<Rightarrow> real" where
  "spec_percentage val tot = (if tot \<le> 0 then 0 else clamp 0 100 (val / tot * 100))"

section \<open>Budget service (services/BudgetService.js)\<close>

text \<open>None of the five functions declares a parameter for the month: an argument a
  caller passes is dropped by the call, and \<open>getExpensesForMonth()\<close> is called
  without a month.\<close>

record overview =
  ov_monthlyIncome :: real
  ov_totalFixedExpenses :: real
  ov_totalBudgeted :: real
  ov_totalSpent :: real
  ov_availableForBudget :: real
  ov_remainingBudget :: real
  ov_unassigned :: real
  ov_realAvailable :: real
  ov_currency :: string
  ov_currentMonth :: string
  ov_fixedExpensesPercent :: real
  ov_budgetedPercent :: real
  ov_spentPercent :: real

definition getBudgetOverview :: "clock \<Rightarrow> database \<Rightarrow> database \<times> overview" where
  "getBudgetOverview now s =
     (let (db, settings) = getSettings now s;
          (db, fixedExpenses) = getAllFixedExpenses now db;
          (db, categories) = getAllCategories now db;
          (db, expenses) = getExpensesForMonth now None db;
          monthlyIncome = (case settings of None \<Rightarrow> 0 | Some st \<Rightarrow> st_monthlyIncome st);
          totalFixedExpenses = reduce_sum fe_amount fixedExpenses;
          totalBudgeted = reduce_sum cat_budgetLimit categories;
          totalSpent = reduce_sum ex_amount expenses;
          availableForBudget = monthlyIncome - totalFixedExpenses;
          remainingBudget = totalBudgeted - totalSpent;
          unassigned = availableForBudget - totalBudgeted;
          realAvailable = monthlyIncome - totalFixedExpenses - totalSpent
      in (db, \<lparr>ov_monthlyIncome = monthlyIncome,
               ov_totalFixedExpenses = totalFixedExpenses,
               ov_totalBudgeted = totalBudgeted,
               ov_totalSpent = totalSpent,
               ov_availableForBudget = availableForBudget,
               ov_remainingBudget = remainingBudget,
               ov_unassigned = unassigned,
               ov_realAvailable = realAvailable,
               ov_currency = or_default (map_option st_currency settings) ''Q'',
               ov_currentMonth =
                 or_default (map_option st_currentMonth settings) (getCurrentMonth now),
               ov_fixedExpensesPercent = calculatePercentage totalFixedExpenses monthlyIncome,
               ov_budgetedPercent = calculatePercentage totalBudgeted availableForBudget,
               ov_spentPercent = calculatePercentage totalSpent totalBudgeted\<rparr>))"

text \<open>
  \<open>expenses.sort((a, b) => new Date(b.date) - new Date(a.date))\<close>: a stable sort,
  latest date first. Dates are compared as strings, which is the order of their
  \<open>Date\<close> values for dates written \<open>YYYY-MM-DD\<close>, the format of the data
  model. What \<open>new Date\<close> reads from a string in another notation depends on the
  browser; the order of such dates is outside the model.
\<close>

fun insert_by_date :: "expense \<Rightarrow> expense list \<Rightarrow> expense list" where
  "insert_by_date x [] = [x]"
| "insert_by_date x (y # ys) =
     (if ex_date x < ex_date y then y # insert_by_date x ys else x # y # ys)"

definition sort_by_date_desc :: "expense list \<Rightarrow> expense list" where
  "sort_by_date_desc xs = foldr insert_by_date xs []"

text \<open>\<open>{...category, spent, remaining, percentage, expenses}\<close>\<close>

record category_detail = category_spending +
  detail_expenses :: "expense list"

definition getCategoryWithSpending ::
  "clock \<Rightarrow> string \<Rightarrow> database \<Rightarrow> database \<times> category_detail option" where
  "getCategoryWithSpending now categoryId s =
     (let (db, category) = getCategory now categoryId s;
          (db, expenses) = getExpensesByCategory now categoryId None db
      in case category of
           None \<Rightarrow> (db, None)
         | Some cat \<Rightarrow>
             (let spent = reduce_sum ex_amount expenses;
                  remaining = cat_budgetLimit cat - spent;
                  percentage = calculatePercentage spent (cat_budgetLimit cat)
              in (db, Some (category_spending.extend
                              (category.extend cat
                                 (category_spending.fields spent remaining percentage))
                              (category_detail.fields (sort_by_date_desc expenses))))))"

text \<open>\<open>{...category, spent, remaining, percentage, expenseCount}\<close>\<close>

record category_summary = category_spending +
  expenseCount :: nat

text \<open>
  The object \<open>expensesByCategory\<close>, filled by the \<open>forEach\<close>, as the map of its
  own properties. The source uses a plain object, which inherits the properties of
  \<open>Object.prototype\<close>: for a \<open>categoryId\<close> or a category \<open>id\<close> that names
  one of them (such as \<open>toString\<close>) the source finds the inherited value and throws
  a \<open>TypeError\<close>. Category ids come from \<open>generateId()\<close>; such ids are outside
  the model.
\<close>

definition group_by_category :: "expense list \<Rightarrow> (string \<rightharpoonup> expense list)" where
  "group_by_category monthExpenses =
     fold (\<lambda>expense byCategory.
             byCategory(ex_categoryId expense \<mapsto>
               or_empty (byCategory (ex_categoryId expense)) @ [expense]))
          monthExpenses Map.empty"

definition getAllCategoriesWithSpending ::
  "clock \<Rightarrow> database \<Rightarrow> database \<times> category_summary list" where
  "getAllCategoriesWithSpending now s =
     (let (db, categories) = getAllCategories now s;
          (db, expenses) = getExpensesForMonth now None db;
          expensesByCategory = group_by_category expenses
      in (db, map (\<lambda>category.
                     let categoryExpenses = or_empty (expensesByCategory (cat_id category));
                         spent = reduce_sum ex_amount categoryExpenses;
                         remaining = cat_budgetLimit category - spent;
                         percentage = calculatePercentage spent (cat_budgetLimit category)
                     in category_spending.extend
                          (category.extend category
                             (category_spending.fields spent remaining percentage))
                          (category_summary.fields (length categoryExpenses)))
                  categories))"

record distribution_item =
  di_name :: string
  di_value :: real
  di_color :: string
  di_percentage :: real

definition getCategoryDistribution :: "clock \<Rightarrow> database \<Rightarrow> database \<times> distribution_item list" where
  "getCategoryDistribution now s =
     (let (db, categoriesWithSpending) = getAllCategoriesWithSpending now s
      in (db, map (\<lambda>c. \<lparr>di_name = cat_name c, di_value = spent c,
                         di_color = cat_color c, di_percentage = percentage c\<rparr>)
                  (filter (\<lambda>c. spent c > 0) categoriesWithSpending)))"

record comparison_item =
  ci_name :: string
  ci_budget :: real
  ci_actual :: real
  ci_color :: string

definition getBudgetVsActual :: "clock \<Rightarrow> database \<Rightarrow> database \<times> comparison_item list" where
  "getBudgetVsActual now s =
     (let (db, categoriesWithSpending) = getAllCategoriesWithSpending now s
      in (db, map (\<lambda>c. \<lparr>ci_name = cat_name c, ci_budget = cat_budgetLimit c,
                         ci_actual = spent c, ci_color = cat_color c\<rparr>)
                  categoriesWithSpending))"

section \<open>The writing operations of the store, as one step function\<close>

datatype operation =
    UpdateSettings settings_updates
  | CreateFixedExpense string fixed_expense_data
  | UpdateFixedExpense string fixed_expense_updates
  | DeleteFixedExpense string
  | CreateCategory string category_data
  | UpdateCategory string category_updates
  | DeleteCategory string "nat option"
  | CreateExpense string expense_data
  | UpdateExpense string expense_updates
  | DeleteExpense string
  | ImportData backup "nat option"
  | CloseMonth "string option" "nat option"
  | DeleteArchive string

fun perform :: "clock \<Rightarrow> operation \<Rightarrow> database \<Rightarrow> database" where
  "perform now (UpdateSettings updates) s = fst (updateSettings now updates s)"
| "perform now (CreateFixedExpense newId d) s = fst (createFixedExpense now newId d s)"
| "perform now (UpdateFixedExpense ident updates) s = fst (updateFixedExpense now ident updates s)"
| "perform now (DeleteFixedExpense ident) s = deleteFixedExpense now ident s"
| "perform now (CreateCategory newId d) s = fst (createCategory now newId d s)"
| "perform now (UpdateCategory ident updates) s = fst (updateCategory now ident updates s)"
| "perform now (DeleteCategory ident crash) s = fst (deleteCategory now ident crash s)"
| "perform now (CreateExpense newId d) s = fst (createExpense now newId d s)"
| "perform now (UpdateExpense ident updates) s = fst (updateExpense now ident updates s)"
| "perform now (DeleteExpense ident) s = deleteExpense now ident s"
| "perform now (ImportData b crash) s = fst (importData now b crash s)"
| "perform now (CloseMonth month crash) s = fst (closeMonth now month crash s)"
| "perform now (DeleteArchive month) s = deleteArchive now month s"


section \<open>Notions used in the properties\<close>

text \<open>
  The archive record that \<open>closeMonth\<close> builds for \<open>targetMonth\<close> on an open
  database, with the sums written as \<open>sum_list\<close>; lemma \<open>closeMonth_open\<close> shows
  that this is the record \<open>closeMonth\<close> stores and returns.
\<close>

definition snapshot :: "clock \<Rightarrow> string \<Rightarrow> database \<Rightarrow> archive" where
  "snapshot now targetMonth db =
     (let monthExpenses = index_only ex_month targetMonth (expenses db);
          current = store_get st_id ''main'' (settings db);
          monthlyIncome = (case current of None \<Rightarrow> 0 | Some st \<Rightarrow> st_monthlyIncome st)
      in \<lparr>ar_id = targetMonth, ar_month = targetMonth, ar_closedAt = toISOString now,
          ar_summary =
            \<lparr>sum_monthlyIncome = monthlyIncome,
             sum_totalFixedExpenses = sum_list (map fe_amount (fixedExpenses db)),
             sum_totalBudgeted = sum_list (map cat_budgetLimit (categories db)),
             sum_totalSpent = sum_list (map ex_amount monthExpenses),
             sum_totalSaved = monthlyIncome - sum_list (map fe_amount (fixedExpenses db))
                              - sum_list (map ex_amount monthExpenses),
             sum_currency = or_default (map_option st_currency current) ''Q''\<rparr>,
          ar_fixedExpenses = index_all fe_createdAt (fixedExpenses db),
          ar_categories =
            map (\<lambda>cat.
                   category.extend cat
                     (category_spending.fields
                        (sum_list (map ex_amount
                           (filter (\<lambda>e. ex_categoryId e = cat_id cat) monthExpenses)))
                        (cat_budgetLimit cat - sum_list (map ex_amount
                           (filter (\<lambda>e. ex_categoryId e = cat_id cat) monthExpenses)))
                        (if cat_budgetLimit cat > 0
                         then sum_list (map ex_amount
                                (filter (\<lambda>e. ex_categoryId e = cat_id cat) monthExpenses))
                              / cat_budgetLimit cat * 100
                         else 0)))
                (index_all cat_createdAt (categories db)),
          ar_expenses = monthExpenses\<rparr>)"

text \<open>The expense store after the cursor of \<open>closeMonth\<close> has deleted the
  expenses of month \<open>m\<close>.\<close>

definition purged :: "string \<Rightarrow> expense list \<Rightarrow> expense list" where
  "purged m xs = filter (\<lambda>x. ex_id x \<notin> ex_id ` set (index_only ex_month m xs)) xs"

subsection \<open>An example database\<close>

text \<open>Monthly income 5000, fixed expenses 1500, the category Food with limit 1000,
  expenses of 800 in March 2024 and one expense in February.\<close>

definition march :: clock where
  "march = \<lparr>toISOString = ''2024-03-31T18:00:00.000Z'', getFullYear = 2024, getMonth = 2\<rparr>"

definition example_settings :: settings_rec where
  "example_settings =
     \<lparr>st_id = ''main'', st_monthlyIncome = 5000, st_currency = ''Q'',
      st_currentMonth = ''2024-03'',
      st_createdAt = ''2024-03-01T08:00:00.000Z'', st_updatedAt = ''2024-03-01T08:00:00.000Z''\<rparr>"

definition rent :: fixed_expense where
  "rent = \<lparr>fe_id = ''f1'', fe_name = ''Rent'', fe_amount = 1500,
           fe_createdAt = ''2024-03-01T08:01:00.000Z'', fe_updatedAt = ''2024-03-01T08:01:00.000Z''\<rparr>"

definition food :: category where
  "food = \<lparr>cat_id = ''c1'', cat_name = ''Food'', cat_budgetLimit = 1000, cat_color = ''#00d4aa'',
           cat_icon = None,
           cat_createdAt = ''2024-03-01T08:02:00.000Z'', cat_updatedAt = ''2024-03-01T08:02:00.000Z''\<rparr>"

definition groceries :: expense where
  "groceries = \<lparr>ex_id = ''e1'', ex_categoryId = ''c1'', ex_description = ''Groceries'',
                ex_amount = 500, ex_date = ''2024-03-05'', ex_month = ''2024-03'',
                ex_createdAt = ''2024-03-05T12:00:00.000Z'', ex_updatedAt = ''2024-03-05T12:00:00.000Z''\<rparr>"

definition lunch :: expense where
  "lunch = \<lparr>ex_id = ''e2'', ex_categoryId = ''c1'', ex_description = ''Lunch'',
            ex_amount = 300, ex_date = ''2024-03-20'', ex_month = ''2024-03'',
            ex_createdAt = ''2024-03-20T12:00:00.000Z'', ex_updatedAt = ''2024-03-20T12:00:00.000Z''\<rparr>"

definition february_dinner :: expense where
  "february_dinner = \<lparr>ex_id = ''e0'', ex_categoryId = ''c1'', ex_description = ''Dinner'',
            ex_amount = 150, ex_date = ''2024-02-10'', ex_month = ''2024-02'',
            ex_createdAt = ''2024-02-10T20:00:00.000Z'', ex_updatedAt = ''2024-02-10T20:00:00.000Z''\<rparr>"

definition example_db :: database where
  "example_db =
     \<lparr>settings = [example_settings], fixedExpenses = [rent], categories = [food],
      expenses = [february_dinner, groceries, lunch], monthlyArchives = [], dbInstance = True\<rparr>"

text \<open>The example after March has been closed.\<close>

definition example_closed :: database where
  "example_closed = fst (closeMonth march (Some ''2024-03'') None example_db)"


subsection \<open>Calendar months\<close>

text \<open>The key \<open>YYYY-MM\<close> of month \<open>m\<close> (1 to 12) of year \<open>y\<close>, and the key of
  the calendar month after it: December rolls over to January of the next year.\<close>

definition month_key :: "nat \<Rightarrow> nat \<Rightarrow> string" where
  "month_key y m = show_nat y @ ''-'' @ padStart 2 (CHR ''0'') (show_nat m)"

definition next_calendar_month :: "nat \<Rightarrow> nat \<Rightarrow> string" where
  "next_calendar_month y m = (if m = 12 then month_key (y + 1) 1 else month_key y (m + 1))"

definition april :: clock where
  "april = \<lparr>toISOString = ''2024-04-02T09:00:00.000Z'', getFullYear = 2024, getMonth = 3\<rparr>"

subsection \<open>Dates and the month of an expense\<close>

text \<open>A date written \<open>YYYY-MM-DD\<close>, the format of the data model.\<close>

definition is_digit :: "char \<Rightarrow> bool" where
  "is_digit c \<longleftrightarrow> c \<in> set ''0123456789''"

definition is_date :: "string \<Rightarrow> bool" where
  "is_date d \<longleftrightarrow>
     length d = 10 \<and> list_all is_digit (take 4 d) \<and> d ! 4 = CHR ''-''
     \<and> list_all is_digit (take 2 (drop 5 d)) \<and> d ! 7 = CHR ''-''
     \<and> list_all is_digit (drop 8 d)"

text \<open>The month partition invariant of one record:
  \<open>record.month === record.date.slice(0, 7)\<close>.\<close>

definition month_consistent :: "expense \<Rightarrow> bool" where
  "month_consistent e \<longleftrightarrow> ex_month e = take 7 (ex_date e)"

text \<open>A new expense, and a patch that changes the date and carries a month of its
  own.\<close>

definition taxi :: expense_data where
  "taxi = \<lparr>ed_categoryId = ''c1'', ed_description = Some '' Taxi '', ed_amount = Some 40,
            ed_date = Some ''2024-03-21''\<rparr>"

definition move_to_april :: expense_updates where
  "move_to_april = \<lparr>eu_categoryId = None, eu_description = None, eu_amount = None,
                    eu_date = Some ''2024-04-01'', eu_month = Some ''1999-01''\<rparr>"

text \<open>A new expense whose date is not written \<open>YYYY-MM-DD\<close>.\<close>

definition short_date :: expense_data where
  "short_date = \<lparr>ed_categoryId = ''c1'', ed_description = None, ed_amount = Some 40,
                  ed_date = Some ''2024-3-5''\<rparr>"

subsection \<open>The Settings singleton\<close>

text \<open>A Settings record with id \<open>main\<close> exists.\<close>

definition has_main :: "database \<Rightarrow> bool" where
  "has_main s \<longleftrightarrow> store_get st_id ''main'' (settings s) \<noteq> None"

text \<open>An operation other than an import, or an import whose backup has no \<open>data\<close>
  (it is rejected) or has settings with id \<open>main\<close>.\<close>

definition keeps_settings :: "operation \<Rightarrow> bool" where
  "keeps_settings op =
     (case op of
        ImportData b crash \<Rightarrow>
          (case data b of
             None \<Rightarrow> True
           | Some d \<Rightarrow> map_option st_id (bk_settings d) = Some ''main'')
      | _ \<Rightarrow> True)"

text \<open>A database that was never opened, and two backup documents.\<close>

definition fresh_db :: database where
  "fresh_db = \<lparr>settings = [], fixedExpenses = [], categories = [], expenses = [],
               monthlyArchives = [], dbInstance = False\<rparr>"

definition backup_without_settings :: backup where
  "backup_without_settings =
     \<lparr>version = 3, exportedAt = ''2024-03-31T18:00:00.000Z'', appName = ''Presupuesto Base Cero'',
      data = Some \<lparr>bk_settings = None, bk_fixedExpenses = Some [rent],
                   bk_categories = Some [food], bk_expenses = Some [groceries],
                   bk_monthlyArchives = Some []\<rparr>\<rparr>"

definition backup_with_settings :: backup where
  "backup_with_settings =
     \<lparr>version = 3, exportedAt = ''2024-03-31T18:00:00.000Z'', appName = ''Presupuesto Base Cero'',
      data = Some \<lparr>bk_settings = Some example_settings, bk_fixedExpenses = Some [rent],
                   bk_categories = Some [food], bk_expenses = Some [groceries],
                   bk_monthlyArchives = Some []\<rparr>\<rparr>"

text \<open>The database an import commits.\<close>

definition imported :: "backup_data \<Rightarrow> database" where
  "imported d =
     \<lparr>settings = (case bk_settings d of None \<Rightarrow> [] | Some st \<Rightarrow> [st]),
      fixedExpenses = fold (store_put fe_id) (or_empty (bk_fixedExpenses d)) [],
      categories = fold (store_put cat_id) (or_empty (bk_categories d)) [],
      expenses = fold (store_put ex_id) (or_empty (bk_expenses d)) [],
      monthlyArchives = fold (store_put ar_id) (or_empty (bk_monthlyArchives d)) [],
      dbInstance = True\<rparr>"

text \<open>The store after the backup without settings has been imported into a store
  that was just opened: it has no Settings record, and one expense of March 2024.\<close>

definition no_settings_db :: database where
  "no_settings_db =
     fst (importData march backup_without_settings None (getDB march fresh_db))"

subsection \<open>An example with a category over its limit\<close>

text \<open>Leisure has limit 100 and expenses of 150; Unplanned has limit 0 and expenses
  of 50.\<close>

definition over_budget :: expense where
  "over_budget = \<lparr>ex_id = ''e9'', ex_categoryId = ''c2'', ex_description = ''Concert'',
            ex_amount = 150, ex_date = ''2024-03-15'', ex_month = ''2024-03'',
            ex_createdAt = ''2024-03-15T20:00:00.000Z'', ex_updatedAt = ''2024-03-15T20:00:00.000Z''\<rparr>"

definition leisure :: category where
  "leisure = \<lparr>cat_id = ''c2'', cat_name = ''Leisure'', cat_budgetLimit = 100, cat_color = ''#6c5ce7'',
           cat_icon = None,
           cat_createdAt = ''2024-03-01T08:03:00.000Z'', cat_updatedAt = ''2024-03-01T08:03:00.000Z''\<rparr>"

definition unplanned :: category where
  "unplanned = \<lparr>cat_id = ''c3'', cat_name = ''Unplanned'', cat_budgetLimit = 0, cat_color = ''#fd79a8'',
           cat_icon = None,
           cat_createdAt = ''2024-03-01T08:04:00.000Z'', cat_updatedAt = ''2024-03-01T08:04:00.000Z''\<rparr>"

definition fine :: expense where
  "fine = \<lparr>ex_id = ''e8'', ex_categoryId = ''c3'', ex_description = ''Fine'',
            ex_amount = 50, ex_date = ''2024-03-16'', ex_month = ''2024-03'',
            ex_createdAt = ''2024-03-16T20:00:00.000Z'', ex_updatedAt = ''2024-03-16T20:00:00.000Z''\<rparr>"

definition overspent_db :: database where
  "overspent_db =
     \<lparr>settings = [example_settings], fixedExpenses = [rent], categories = [leisure, unplanned],
      expenses = [fine, over_budget], monthlyArchives = [], dbInstance = True\<rparr>"

subsection \<open>Well-formed databases\<close>

text \<open>
  Every store holds one record per key, in key order, and the Settings store holds no
  record other than \<open>main\<close>. The database that was never opened is well formed
  and every operation keeps a database so, an import when the settings of its backup,
  if any, have id \<open>main\<close> (lemmas \<open>well_formed_fresh\<close>,
  \<open>well_formed_perform\<close>).
\<close>

definition well_formed :: "database \<Rightarrow> bool" where
  "well_formed s \<longleftrightarrow>
     well_keyed st_id (settings s) \<and> list_all (\<lambda>st. st_id st = ''main'') (settings s)
     \<and> well_keyed fe_id (fixedExpenses s) \<and> well_keyed cat_id (categories s)
     \<and> well_keyed ex_id (expenses s) \<and> well_keyed ar_id (monthlyArchives s)"

definition imports_main :: "operation \<Rightarrow> bool" where
  "imports_main op =
     (case op of
        ImportData b crash \<Rightarrow>
          (case data b of
             None \<Rightarrow> True
           | Some d \<Rightarrow> (case bk_settings d of None \<Rightarrow> True | Some st \<Rightarrow> st_id st = ''main''))
      | _ \<Rightarrow> True)"

text \<open>The dates an operation carries are written \<open>YYYY-MM-DD\<close>, and the expenses
  of a backup satisfy the month partition invariant.\<close>

definition dates_ok :: "clock \<Rightarrow> operation \<Rightarrow> bool" where
  "dates_ok now op =
     (case op of
        CreateExpense newId d \<Rightarrow>
          is_date (or_default (ed_date d) (hd (split_on (CHR ''T'') (toISOString now))))
      | UpdateExpense ident u \<Rightarrow> (case eu_date u of None \<Rightarrow> True | Some x \<Rightarrow> is_date x)
      | ImportData b crash \<Rightarrow>
          (case data b of
             None \<Rightarrow> True
           | Some d \<Rightarrow> list_all month_consistent (or_empty (bk_expenses d)))
      | _ \<Rightarrow> True)"

section \<open>Lemmas: opening the database\<close>

lemma dbInstance_getDB [simp]: "dbInstance (getDB now s)"
  by (simp add: getDB_def initializeSettings_def split: option.split)

lemma getDB_open [simp]: "dbInstance s \<Longrightarrow> getDB now s = s"
  by (simp add: getDB_def)

lemma getDB_stores [simp]:
  "fixedExpenses (getDB now s) = fixedExpenses s"
  "categories (getDB now s) = categories s"
  "expenses (getDB now s) = expenses s"
  "monthlyArchives (getDB now s) = monthlyArchives s"
  by (simp_all add: getDB_def initializeSettings_def split: option.split)

section \<open>Lemmas: object stores\<close>

lemma store_get_put:
  "store_get key k (store_put key r xs) = (if k = key r then Some r else store_get key k xs)"
  by (induction xs) (auto simp: store_get_def)

lemma set_store_put_subset: "set (store_put key r xs) \<subseteq> insert r (set xs)"
  by (induction xs) auto

lemma well_keyed_Nil [simp]: "well_keyed key []"
  by (simp add: well_keyed_def)

lemma well_keyed_Cons:
  "well_keyed key (x # xs) \<longleftrightarrow> (\<forall>y\<in>set xs. key x < key y) \<and> well_keyed key xs"
  by (auto simp: well_keyed_def)

lemma set_store_put:
  "well_keyed key xs \<Longrightarrow> set (store_put key r xs) = insert r {x \<in> set xs. key x \<noteq> key r}"
  by (induction xs) (auto simp: well_keyed_Cons)

lemma well_keyed_put: "well_keyed key xs \<Longrightarrow> well_keyed key (store_put key r xs)"
proof (induction xs)
  case Nil
  then show ?case by (simp add: well_keyed_def)
next
  case (Cons x xs)
  then show ?case
    by (auto simp: well_keyed_Cons set_store_put)
qed

lemma well_keyed_filter: "well_keyed key xs \<Longrightarrow> well_keyed key (filter P xs)"
  by (induction xs) (auto simp: well_keyed_Cons)

lemma well_keyed_distinct: "well_keyed key xs \<Longrightarrow> distinct (map key xs)"
  by (induction xs) (auto simp: well_keyed_Cons)





lemma store_get_member: "store_get key k xs = Some x \<Longrightarrow> x \<in> set xs \<and> key x = k"
  by (induction xs) (auto simp: store_get_def split: if_splits)


section \<open>Lemmas: sums\<close>

lemma reduce_sum_sum_list: "reduce_sum f xs = sum_list (map f xs)"
proof -
  have "foldl (\<lambda>sum e. sum + f e) a xs = a + sum_list (map f xs)" for a
    by (induction xs arbitrary: a) auto
  then show ?thesis by (simp add: reduce_sum_def)
qed

lemma sum_list_insort_key:
  "sum_list (map f (insort_key g x xs)) = f x + sum_list (map (f :: 'a \<Rightarrow> real) xs)"
  by (induction xs) auto

lemma sum_list_sort_key: "sum_list (map f (sort_key g xs)) = sum_list (map (f :: 'a \<Rightarrow> real) xs)"
  by (induction xs) (auto simp: sum_list_insort_key)

section \<open>Lemmas: closing a month\<close>

lemma show_nat_not_Nil [simp]: "show_nat n \<noteq> []"
  by (subst show_nat.simps) simp

lemma getCurrentMonth_not_Nil [simp]: "getCurrentMonth now \<noteq> []"
  by (simp add: getCurrentMonth_def)

lemma fold_delete_expenses:
  "fold (\<lambda>request. request)
        (map (\<lambda>e tx. tx\<lparr>expenses := store_delete ex_id (ex_id e) (expenses tx)\<rparr>) es) tx
   = tx\<lparr>expenses := filter (\<lambda>x. ex_id x \<notin> ex_id ` set es) (expenses tx)\<rparr>"
proof (induction es arbitrary: tx)
  case Nil
  then show ?case by simp
next
  case (Cons e es)
  have "filter (\<lambda>x. ex_id x \<notin> ex_id ` set es) (filter (\<lambda>x. ex_id x \<noteq> ex_id e) xs)
      = filter (\<lambda>x. ex_id x \<notin> ex_id ` set (e # es)) xs" for xs
    by (induction xs) auto
  with Cons show ?case
    by (simp add: store_delete_def)
qed

text \<open>\<open>closeMonth\<close> on an open database, for any month and any interruption.\<close>

lemma or_default_not_Nil [simp]: "d \<noteq> [] \<Longrightarrow> or_default x d \<noteq> []"
  by (simp add: or_default_def split: option.split)

lemma or_default_Some [simp]: "x \<noteq> [] \<Longrightarrow> or_default (Some x) d = x"
  by (simp add: or_default_def)

lemma closeMonth_general:
  assumes "dbInstance s"
  shows "closeMonth now month crash s =
     (let tm = or_default month (getCurrentMonth now)
      in case store_get ar_id tm (monthlyArchives s) of
           Some _ \<Rightarrow> (s, Inl (AlreadyClosedError tm))
         | None \<Rightarrow>
             (let a = snapshot now tm s;
                  db = s\<lparr>monthlyArchives := store_put ar_id a (monthlyArchives s),
                         expenses := purged tm (expenses s)\<rparr>;
                  n = Suc (length (index_only ex_month tm (expenses s)))
              in if (case crash of None \<Rightarrow> False | Some k \<Rightarrow> k \<le> n) then (s, Inl Interrupted)
                 else if tm = getCurrentMonth now then
                   (if crash = Some (n + 1) then (db, Inl Interrupted)
                    else (case store_get st_id ''main'' (settings s) of
                            None \<Rightarrow> (db, Inl DataError)
                          | Some st \<Rightarrow>
                              (db\<lparr>settings := store_put st_id
                                    (st\<lparr>st_currentMonth := nextMonth tm,
                                        st_updatedAt := toISOString now\<rparr>)
                                    (settings s)\<rparr>, Inr a)))
                 else (db, Inr a)))"
  using assms
  by (simp add: closeMonth_def getArchive_def getSettings_def
      getAllFixedExpenses_def getAllCategories_def getExpensesForMonth_def
      transaction_def fold_delete_expenses reduce_sum_sum_list sum_list_sort_key
      snapshot_def purged_def index_all_def Let_def updateSettings_def spread_def
      split: option.split cong: if_cong)

lemma closeMonth_returns_open:
  assumes "dbInstance s" and "snd (closeMonth now month crash s) = Inr a"
  shows "a = snapshot now (or_default month (getCurrentMonth now)) s"
  using assms(2) unfolding closeMonth_general [OF assms(1)]
  by (simp add: Let_def split: option.splits if_splits)

text \<open>An uninterrupted \<open>closeMonth\<close> of a month without archive, on an open
  database.\<close>

lemma closeMonth_open:
  assumes "dbInstance s" and "m \<noteq> []" and "store_get ar_id m (monthlyArchives s) = None"
  shows "closeMonth now (Some m) None s =
     (let a = snapshot now m s;
          db = s\<lparr>monthlyArchives := store_put ar_id a (monthlyArchives s),
                 expenses := purged m (expenses s)\<rparr>
      in if m = getCurrentMonth now then
           (case store_get st_id ''main'' (settings s) of
              None \<Rightarrow> (db, Inl DataError)
            | Some st \<Rightarrow>
                (db\<lparr>settings := store_put st_id
                      (st\<lparr>st_currentMonth := nextMonth m, st_updatedAt := toISOString now\<rparr>)
                      (settings s)\<rparr>, Inr a))
         else (db, Inr a))"
  using assms
  by (simp add: closeMonth_def getArchive_def or_default_def getSettings_def
      getAllFixedExpenses_def getAllCategories_def getExpensesForMonth_def
      transaction_def fold_delete_expenses reduce_sum_sum_list sum_list_sort_key
      snapshot_def purged_def index_all_def Let_def updateSettings_def spread_def
      split: option.split cong: if_cong)

lemma index_only_purged [simp]: "index_only ex_month m (purged m xs) = []"
  by (auto simp: purged_def index_only_def filter_empty_conv)

text \<open>Wherever the call is cut short, the archive and the expenses are both as
  before or both as after.\<close>

lemma closeMonth_any_crash:
  assumes "dbInstance s" and "m \<noteq> []" and "store_get ar_id m (monthlyArchives s) = None"
  shows "fst (closeMonth now (Some m) crash s) = s
       \<or> monthlyArchives (fst (closeMonth now (Some m) crash s))
            = store_put ar_id (snapshot now m s) (monthlyArchives s)
         \<and> expenses (fst (closeMonth now (Some m) crash s)) = purged m (expenses s)"
proof (cases crash)
  case None
  with closeMonth_open [OF assms, of now] show ?thesis
    by (simp add: Let_def split: option.split)
next
  case (Some k)
  with assms show ?thesis
    by (simp add: closeMonth_def getArchive_def or_default_def getSettings_def
      getAllFixedExpenses_def getAllCategories_def getExpensesForMonth_def
      transaction_def fold_delete_expenses reduce_sum_sum_list sum_list_sort_key
      snapshot_def purged_def index_all_def Let_def updateSettings_def spread_def
      split: option.split cong: if_cong)
qed

lemma closeMonth_open_stores:
  assumes "dbInstance s" and "m \<noteq> []" and "store_get ar_id m (monthlyArchives s) = None"
    and "store_get st_id ''main'' (settings s) = Some st"
  shows "dbInstance (fst (closeMonth now (Some m) None s))"
    and "monthlyArchives (fst (closeMonth now (Some m) None s))
           = store_put ar_id (snapshot now m s) (monthlyArchives s)"
    and "expenses (fst (closeMonth now (Some m) None s)) = purged m (expenses s)"
    and "snd (closeMonth now (Some m) None s) = Inr (snapshot now m s)"
  using closeMonth_open [OF assms(1-3), of now] assms(1,4)
  by (simp_all add: Let_def)

lemma example_closed_facts:
  "dbInstance example_closed"
  "store_get ar_id ''2024-03'' (monthlyArchives example_closed)
     = Some (snapshot march ''2024-03'' example_db)"
proof -
  have 1: "dbInstance example_db" by (simp add: example_db_def)
  have 2: "store_get ar_id ''2024-03'' (monthlyArchives example_db) = None"
    by (simp add: example_db_def store_get_def)
  have 3: "ar_id (snapshot march ''2024-03'' example_db) = ''2024-03''"
    by (simp add: snapshot_def Let_def)
  have 4: "store_get st_id ''main'' (settings example_db) = Some example_settings"
    by (simp add: example_db_def store_get_def example_settings_def)
  from closeMonth_open_stores(1) [OF 1 _ 2 4, of march] show "dbInstance example_closed"
    by (simp add: example_closed_def)
  from closeMonth_open_stores(2) [OF 1 _ 2 4, of march] 3
  show "store_get ar_id ''2024-03'' (monthlyArchives example_closed)
     = Some (snapshot march ''2024-03'' example_db)"
    by (simp add: example_closed_def store_get_put)
qed

text \<open>
  An uninterrupted \<open>closeMonth\<close> of a month \<open>m\<close> without archive, on an open
  database whose Settings record exists or for a month other than the month of the
  clock: it returns an archive whose \<open>summary.totalSaved\<close> is the monthly income
  (0 without Settings record) minus the sum of the fixed-expense amounts minus the sum
  of the amounts of the expenses of month \<open>m\<close>; afterwards
  \<open>getExpensesForMonth(m)\<close> is empty, and \<open>getArchive(m)\<close> is that archive,
  whose \<open>expenses\<close> are exactly the expense records that had month \<open>m\<close> before
  the call. Wherever the call is cut short, either the archives and the expenses are
  both unchanged, or the archive is stored and the expenses of the month are gone.
\<close>

lemma closeMonth_archives_month:
  assumes "dbInstance s" and "m \<noteq> []"
    and "store_get ar_id m (monthlyArchives s) = None"
    and "has_main s \<or> m \<noteq> getCurrentMonth now"
  shows "\<exists>a s'. closeMonth now (Some m) None s = (s', Inr a)
      \<and> sum_totalSaved (ar_summary a)
          = (case store_get st_id ''main'' (settings s) of
               None \<Rightarrow> 0 | Some st \<Rightarrow> st_monthlyIncome st)
            - sum_list (map fe_amount (fixedExpenses s))
            - sum_list (map ex_amount (filter (\<lambda>e. ex_month e = m) (expenses s)))
      \<and> snd (getExpensesForMonth later (Some m) s') = []
      \<and> snd (getArchive later m s') = Some a
      \<and> ar_expenses a = filter (\<lambda>e. ex_month e = m) (expenses s)
      \<and> (\<forall>crash. let t = fst (closeMonth now (Some m) crash s)
                  in monthlyArchives t = monthlyArchives s \<and> expenses t = expenses s
                   \<or> store_get ar_id m (monthlyArchives t) \<noteq> None
                     \<and> index_only ex_month m (expenses t) = [])"
proof -
  let ?a = "snapshot now m s"
  have id_a: "ar_id ?a = m"
    by (simp add: snapshot_def Let_def)
  have saved: "sum_totalSaved (ar_summary ?a)
      = (case store_get st_id ''main'' (settings s) of
           None \<Rightarrow> 0 | Some st \<Rightarrow> st_monthlyIncome st)
        - sum_list (map fe_amount (fixedExpenses s))
        - sum_list (map ex_amount (filter (\<lambda>e. ex_month e = m) (expenses s)))"
    by (simp add: snapshot_def Let_def index_only_def)
  have kept: "ar_expenses ?a = filter (\<lambda>e. ex_month e = m) (expenses s)"
    by (simp add: snapshot_def Let_def index_only_def)
  obtain s' where run: "closeMonth now (Some m) None s = (s', Inr ?a)"
    and opened: "dbInstance s'"
    and arch: "monthlyArchives s' = store_put ar_id ?a (monthlyArchives s)"
    and exps: "expenses s' = purged m (expenses s)"
    using closeMonth_open [OF assms(1-3), of now] assms(1,4)
    by (auto simp: Let_def has_main_def split: if_splits)
  have empty: "snd (getExpensesForMonth later (Some m) s') = []"
    using opened exps assms(2) by (simp add: getExpensesForMonth_def or_default_def)
  have found: "snd (getArchive later m s') = Some ?a"
    using opened arch id_a by (simp add: getArchive_def store_get_put)
  have atomic: "let t = fst (closeMonth now (Some m) crash s)
                in monthlyArchives t = monthlyArchives s \<and> expenses t = expenses s
                 \<or> store_get ar_id m (monthlyArchives t) \<noteq> None
                   \<and> index_only ex_month m (expenses t) = []" for crash
    using closeMonth_any_crash [OF assms(1-3), of now crash] id_a
    by (auto simp: Let_def store_get_put)
  from run saved empty found kept atomic show ?thesis
    by blast
qed

text \<open>The example of the specification: 5000 - 1500 - 800 = 2700.\<close>

lemma closeMonth_example:
  "\<exists>a s'. closeMonth march (Some ''2024-03'') None example_db = (s', Inr a)
     \<and> sum_totalSaved (ar_summary a) = 2700
     \<and> snd (getExpensesForMonth march (Some ''2024-03'') s') = []
     \<and> snd (getArchive march ''2024-03'' s') = Some a
     \<and> ar_expenses a = [groceries, lunch]"
proof -
  have 1: "dbInstance example_db" by (simp add: example_db_def)
  have 2: "''2024-03'' \<noteq> []" by simp
  have 3: "store_get ar_id ''2024-03'' (monthlyArchives example_db) = None"
    by (simp add: example_db_def store_get_def)
  have 4: "store_get st_id ''main'' (settings example_db) = Some example_settings"
    by (simp add: example_db_def store_get_def example_settings_def)
  then have main: "has_main example_db \<or> ''2024-03'' \<noteq> getCurrentMonth march"
    by (simp add: has_main_def)
  have 5: "sum_list (map fe_amount (fixedExpenses example_db)) = 1500"
    by (simp add: example_db_def rent_def)
  have 6: "filter (\<lambda>e. ex_month e = ''2024-03'') (expenses example_db) = [groceries, lunch]"
    by (simp add: example_db_def february_dinner_def groceries_def lunch_def)
  have 7: "sum_list (map ex_amount [groceries, lunch]) = 800"
    by (simp add: groceries_def lunch_def)
  have 8: "st_monthlyIncome example_settings = 5000"
    by (simp add: example_settings_def)
  from closeMonth_archives_month [OF 1 2 3 main, of march] show ?thesis
    unfolding 4 5 6 7 by (simp add: 8) blast
qed

section \<open>Lemmas: month keys\<close>

lemma digit_val_digit_char: "d < 10 \<Longrightarrow> digit_val (digit_char d) = Some d"
proof -
  assume "d < 10"
  then have "d \<in> {0, 1, 2, 3, 4, 5, 6, 7, 8, 9}" by auto
  then show ?thesis
    by (auto simp: digit_val_def digit_char_def upt_rec [of 0] upt_rec [of "Suc _"]  eval_nat_numeral)
qed

lemma digit_char_not_dash: "d < 10 \<Longrightarrow> digit_char d \<noteq> CHR ''-''"
proof -
  assume "d < 10"
  then have "d \<in> {0, 1, 2, 3, 4, 5, 6, 7, 8, 9}" by auto
  then show ?thesis
    by (auto simp: digit_char_def)
qed

lemma Number_from_snoc:
  "Number_from acc (xs @ [c]) =
     (case Number_from acc xs of None \<Rightarrow> None
      | Some v \<Rightarrow> (case digit_val c of None \<Rightarrow> None | Some d \<Rightarrow> Some (10 * v + d)))"
  by (induction xs arbitrary: acc) (auto split: option.splits)

lemma Number_show_nat: "Number (show_nat n) = Some n"
proof (induction n rule: show_nat.induct)
  case (1 n)
  show ?case
  proof (cases "n < 10")
    case True
    then show ?thesis
      by (subst show_nat.simps) (simp add: Number_def digit_val_digit_char)
  next
    case False
    with 1 have "Number (show_nat (n div 10)) = Some (n div 10)" by simp
    with False show ?thesis
      by (subst show_nat.simps)
        (simp add: Number_def Number_from_snoc digit_val_digit_char)
  qed
qed

lemma dash_not_in_show_nat: "CHR ''-'' \<notin> set (show_nat n)"
proof (induction n rule: show_nat.induct)
  case (1 n)
  show ?case
  proof (cases "n < 10")
    case True
    then show ?thesis
      using digit_char_not_dash [of n] by (subst show_nat.simps) auto
  next
    case False
    with 1 have "CHR ''-'' \<notin> set (show_nat (n div 10))" by simp
    with False show ?thesis
      using digit_char_not_dash [of "n mod 10"] by (subst show_nat.simps) auto
  qed
qed

lemma split_on_none: "c \<notin> set a \<Longrightarrow> split_on c a = [a]"
  by (induction a) auto

lemma split_on_first: "c \<notin> set a \<Longrightarrow> split_on c (a @ c # b) = a # split_on c b"
  by (induction a) auto

lemma Number_padStart: "Number (padStart n (CHR ''0'') s) = Number s"
proof -
  have "digit_val (CHR ''0'') = Some 0"
    using digit_val_digit_char [of 0] by (simp add: digit_char_def)
  then have "Number_from 0 (replicate k (CHR ''0'') @ s) = Number_from 0 s" for k
    by (induction k) simp_all
  then show ?thesis by (simp add: Number_def padStart_def)
qed

lemma split_month_key:
  "split_on (CHR ''-'') (month_key y m) = [show_nat y, padStart 2 (CHR ''0'') (show_nat m)]"
proof -
  have "CHR ''-'' \<notin> set (padStart 2 (CHR ''0'') (show_nat m))"
    using dash_not_in_show_nat [of m] by (auto simp: padStart_def)
  then show ?thesis
    using dash_not_in_show_nat [of y]
    by (simp add: month_key_def split_on_first split_on_none)
qed

lemma show_nat_1: "show_nat (Suc 0) = ''1''"
  by (subst show_nat.simps) (simp add: digit_char_def)

lemma nextMonth_month_key: "nextMonth (month_key y m) = next_calendar_month y m"
proof -
  have "nextMonth (month_key y m) =
      (if m = 12 then show_nat (y + 1) @ ''-01''
       else show_nat y @ ''-'' @ padStart 2 (CHR ''0'') (show_nat (m + 1)))"
    by (simp add: nextMonth_def split_month_key element_def Number_show_nat Number_padStart
        String_of_def)
  also have "\<dots> = next_calendar_month y m"
    by (simp add: next_calendar_month_def month_key_def show_nat_1 padStart_def)
  finally show ?thesis .
qed

lemma getCurrentMonth_month_key:
  "getCurrentMonth now = month_key (getFullYear now) (getMonth now + 1)"
  by (simp add: getCurrentMonth_def month_key_def)

lemma example_db_facts:
  "dbInstance example_db"
  "store_get ar_id m (monthlyArchives example_db) = None"
  "store_get st_id ''main'' (settings example_db) = Some example_settings"
  by (simp_all add: example_db_def store_get_def example_settings_def)

lemma getCurrentMonth_march: "getCurrentMonth march = ''2024-03''"
  by (simp add: march_def getCurrentMonth_def show_nat.simps digit_char_def padStart_def)

lemma getCurrentMonth_april: "getCurrentMonth april = ''2024-04''"
  by (simp add: april_def getCurrentMonth_def show_nat.simps digit_char_def padStart_def)

section \<open>Lemmas: deleting a category\<close>

lemma filter_not_in_filtered:
  assumes "distinct (map key xs)"
  shows "filter (\<lambda>x. key x \<notin> key ` set (filter P xs)) xs = filter (\<lambda>x. \<not> P x) xs"
proof (rule filter_cong [OF refl])
  fix x
  assume x: "x \<in> set xs"
  from assms have inj: "inj_on key (set xs)"
    by (simp add: distinct_map)
  show "(key x \<notin> key ` set (filter P xs)) = (\<not> P x)"
  proof
    assume "key x \<notin> key ` set (filter P xs)"
    with x show "\<not> P x" by auto
  next
    assume notP: "\<not> P x"
    show "key x \<notin> key ` set (filter P xs)"
    proof
      assume "key x \<in> key ` set (filter P xs)"
      then obtain y where y: "y \<in> set xs" "P y" "key y = key x" by auto
      with inj x have "y = x" by (auto dest: inj_onD)
      with y notP show False by simp
    qed
  qed
qed

lemma deleteCategory_open:
  assumes "dbInstance s" and "well_keyed ex_id (expenses s)"
  shows "deleteCategory now ident None s =
     (s\<lparr>expenses := filter (\<lambda>e. ex_categoryId e \<noteq> ident) (expenses s),
        categories := filter (\<lambda>c. cat_id c \<noteq> ident) (categories s)\<rparr>, Inr ())"
proof -
  have "deleteCategory now ident None s =
     (s\<lparr>expenses := filter (\<lambda>x. ex_id x \<notin> ex_id `
                          set (index_only ex_categoryId ident (expenses s))) (expenses s),
        categories := store_delete cat_id ident (categories s)\<rparr>, Inr ())"
    using assms(1)
    by (simp add: deleteCategory_def transaction_def fold_delete_expenses Let_def)
  with filter_not_in_filtered [OF well_keyed_distinct [OF assms(2)],
      of "\<lambda>e. ex_categoryId e = ident"]
  show ?thesis
    by (simp add: index_only_def store_delete_def)
qed

lemma example_db_well_keyed: "well_keyed ex_id (expenses example_db)"
  by (simp add: well_keyed_def example_db_def february_dinner_def groceries_def lunch_def)

section \<open>Lemmas: the month of an expense\<close>

lemma is_digit_not_dash: "is_digit c \<Longrightarrow> c \<noteq> CHR ''-''"
  by (auto simp: is_digit_def)

lemma length_10:
  assumes "length d = 10"
  obtains a b c e f g h i j k where "d = [a, b, c, e, f, g, h, i, j, k]"
proof -
  from assms show thesis
    by (auto simp: length_Suc_conv eval_nat_numeral intro: that)
qed

lemma month_of_date:
  assumes "is_date d"
  shows "template (element (split_on (CHR ''-'') d) 0) @ ''-''
         @ template (element (split_on (CHR ''-'') d) 1) = take 7 d"
proof -
  from assms have "length d = 10" by (simp add: is_date_def)
  then obtain a b c e f g h i j k where d: "d = [a, b, c, e, f, g, h, i, j, k]"
    by (rule length_10)
  with assms have "a \<noteq> CHR ''-''" "b \<noteq> CHR ''-''" "c \<noteq> CHR ''-''" "e \<noteq> CHR ''-''"
    "f = CHR ''-''" "g \<noteq> CHR ''-''" "h \<noteq> CHR ''-''" "i = CHR ''-''"
    by (auto simp: is_date_def dest: is_digit_not_dash)
  with d show ?thesis
    by (simp add: element_def template_def split: list.split)
qed

lemma expenses_createExpense:
  "set (expenses (fst (createExpense now newId d s)))
     \<subseteq> insert \<lparr>ex_id = newId, ex_categoryId = ed_categoryId d,
                ex_description = (case ed_description d of None \<Rightarrow> [] | Some x \<Rightarrow> trim x),
                ex_amount = (case ed_amount d of None \<Rightarrow> 0 | Some a \<Rightarrow> a),
                ex_date = or_default (ed_date d) (hd (split_on (CHR ''T'') (toISOString now))),
                ex_month =
                  template (element (split_on (CHR ''-'')
                     (or_default (ed_date d) (hd (split_on (CHR ''T'') (toISOString now))))) 0)
                  @ ''-'' @
                  template (element (split_on (CHR ''-'')
                     (or_default (ed_date d) (hd (split_on (CHR ''T'') (toISOString now))))) 1),
                ex_createdAt = toISOString now, ex_updatedAt = toISOString now\<rparr>
              (set (expenses s))"
  using set_store_put_subset [of ex_id _ "expenses s"]
  by (auto simp: createExpense_def Let_def store_add_def split: option.splits)

lemma store_put_member: "x \<in> set (store_put key r xs) \<Longrightarrow> x = r \<or> x \<in> set xs"
  using set_store_put_subset [of key r xs] by auto

lemma is_date_examples: "is_date ''2024-03-21''" "is_date ''2024-04-01''"
  by (simp_all add: is_date_def is_digit_def)

lemma example_db_consistent: "list_all month_consistent (expenses example_db)"
  by (simp add: example_db_def month_consistent_def february_dinner_def groceries_def lunch_def)

lemma months_after_update:
  "map ex_month (expenses (fst (updateExpense march ''e1'' move_to_april example_db)))
     = [''2024-02'', ''2024-04'', ''2024-03'']"
  by (simp add: updateExpense_def example_db_def store_get_def move_to_april_def
      february_dinner_def groceries_def lunch_def element_def template_def spread_def Let_def)

text \<open>What \<open>createExpense\<close> stores under an id that is not yet a key, and what
  \<open>updateExpense\<close> stores for a record it finds.\<close>

lemma createExpense_stored:
  assumes "store_get ex_id newId (expenses s) = None"
  shows "\<exists>e. snd (createExpense now newId d s) = Inr e
       \<and> store_get ex_id newId (expenses (fst (createExpense now newId d s))) = Some e
       \<and> ex_date e = or_default (ed_date d) (hd (split_on (CHR ''T'') (toISOString now)))
       \<and> ex_month e
           = template (element (split_on (CHR ''-'') (ex_date e)) 0) @ ''-''
             @ template (element (split_on (CHR ''-'') (ex_date e)) 1)"
  using assms
  by (simp add: createExpense_def Let_def store_add_def store_get_put)

lemma updateExpense_stored:
  assumes "store_get ex_id ident (expenses s) = Some current"
  shows "\<exists>e. snd (updateExpense now ident u s) = Inr e
       \<and> store_get ex_id ident (expenses (fst (updateExpense now ident u s))) = Some e
       \<and> ex_date e = (case eu_date u of None \<Rightarrow> ex_date current | Some x \<Rightarrow> x)
       \<and> ex_month e
           = (case eu_date u of
                None \<Rightarrow> ex_month current
              | Some x \<Rightarrow>
                  if x = [] then ex_month current
                  else template (element (split_on (CHR ''-'') x) 0) @ ''-''
                       @ template (element (split_on (CHR ''-'') x) 1))"
  using assms store_get_member [OF assms]
  by (simp add: updateExpense_def Let_def store_get_put spread_def split: option.split)

lemma month_consistent_createExpense:
  assumes "list_all month_consistent (expenses s)"
    and "is_date (or_default (ed_date d) (hd (split_on (CHR ''T'') (toISOString now))))"
  shows "list_all month_consistent (expenses (fst (createExpense now newId d s)))"
  using month_of_date [OF assms(2)] assms(1) expenses_createExpense [of now newId d s]
  by (auto simp: list_all_iff month_consistent_def)

lemma month_consistent_updateExpense:
  assumes "list_all month_consistent (expenses s)"
    and date: "case eu_date u of None \<Rightarrow> True | Some x \<Rightarrow> is_date x"
  shows "list_all month_consistent (expenses (fst (updateExpense now ident u s)))"
proof (cases "store_get ex_id ident (expenses s)")
  case None
  with assms(1) show ?thesis
    by (simp add: updateExpense_def)
next
  case (Some current)
  then have "current \<in> set (expenses s)"
    by (auto dest: store_get_member)
  with assms(1) have cur: "ex_month current = take 7 (ex_date current)"
    by (simp add: list_all_iff month_consistent_def)
  show ?thesis
  proof (cases "eu_date u")
    case None
    with Some cur assms(1) show ?thesis
      by (auto simp: updateExpense_def Let_def list_all_iff month_consistent_def spread_def
          dest!: store_put_member)
  next
    case (Some x)
    with date have x: "is_date x" by simp
    then have "x \<noteq> []" by (auto simp: is_date_def)
    with Some \<open>store_get ex_id ident (expenses s) = Some current\<close> month_of_date [OF x]
      assms(1)
    show ?thesis
      by (auto simp: updateExpense_def Let_def list_all_iff month_consistent_def spread_def
          dest!: store_put_member)
  qed
qed

section \<open>Lemmas: import and the Settings singleton\<close>

lemma has_main_first_access: "\<not> dbInstance s \<Longrightarrow> has_main (getDB now s)"
  by (simp add: has_main_def getDB_def initializeSettings_def store_get_put split: option.split)

lemma settings_getDB: "has_main s \<Longrightarrow> settings (getDB now s) = settings s"
  by (auto simp: has_main_def getDB_def initializeSettings_def split: option.split)

lemma has_main_getDB: "has_main s \<Longrightarrow> has_main (getDB now s)"
  by (simp add: has_main_def settings_getDB [unfolded has_main_def])

lemma fold_put_fixedExpenses:
  "fold (\<lambda>request. request)
        (map (\<lambda>item tx. tx\<lparr>fixedExpenses := store_put fe_id item (fixedExpenses tx)\<rparr>) items) tx
   = tx\<lparr>fixedExpenses := fold (store_put fe_id) items (fixedExpenses tx)\<rparr>"
  by (induction items arbitrary: tx) simp_all

lemma fold_put_categories:
  "fold (\<lambda>request. request)
        (map (\<lambda>item tx. tx\<lparr>categories := store_put cat_id item (categories tx)\<rparr>) items) tx
   = tx\<lparr>categories := fold (store_put cat_id) items (categories tx)\<rparr>"
  by (induction items arbitrary: tx) simp_all

lemma fold_put_expenses:
  "fold (\<lambda>request. request)
        (map (\<lambda>item tx. tx\<lparr>expenses := store_put ex_id item (expenses tx)\<rparr>) items) tx
   = tx\<lparr>expenses := fold (store_put ex_id) items (expenses tx)\<rparr>"
  by (induction items arbitrary: tx) simp_all

lemma fold_put_monthlyArchives:
  "fold (\<lambda>request. request)
        (map (\<lambda>item tx. tx\<lparr>monthlyArchives := store_put ar_id item (monthlyArchives tx)\<rparr>) items) tx
   = tx\<lparr>monthlyArchives := fold (store_put ar_id) items (monthlyArchives tx)\<rparr>"
  by (induction items arbitrary: tx) simp_all

lemma importData_cases:
  assumes "data b = Some d"
  shows "importData now b crash s = (getDB now s, Inl Interrupted)
       \<or> importData now b crash s = (imported d, Inr ())"
proof -
  have "fold (\<lambda>request. request)
          ([\<lambda>tx. tx\<lparr>settings := []\<rparr>, \<lambda>tx. tx\<lparr>fixedExpenses := []\<rparr>,
            \<lambda>tx. tx\<lparr>categories := []\<rparr>, \<lambda>tx. tx\<lparr>expenses := []\<rparr>,
            \<lambda>tx. tx\<lparr>monthlyArchives := []\<rparr>]
           @ (case bk_settings d of
                None \<Rightarrow> []
              | Some st \<Rightarrow> [\<lambda>tx. tx\<lparr>settings := store_put st_id st (settings tx)\<rparr>])
           @ map (\<lambda>item tx. tx\<lparr>fixedExpenses := store_put fe_id item (fixedExpenses tx)\<rparr>)
               (or_empty (bk_fixedExpenses d))
           @ map (\<lambda>item tx. tx\<lparr>categories := store_put cat_id item (categories tx)\<rparr>)
               (or_empty (bk_categories d))
           @ map (\<lambda>item tx. tx\<lparr>expenses := store_put ex_id item (expenses tx)\<rparr>)
               (or_empty (bk_expenses d))
           @ map (\<lambda>item tx. tx\<lparr>monthlyArchives := store_put ar_id item (monthlyArchives tx)\<rparr>)
               (or_empty (bk_monthlyArchives d)))
          (getDB now s) = imported d"
    by (simp add: fold_put_fixedExpenses fold_put_categories fold_put_expenses
        fold_put_monthlyArchives imported_def split: option.split)
  with assms show ?thesis
    by (auto simp: importData_def transaction_def Let_def split: option.splits)
qed

lemma importData_uninterrupted:
  assumes "data b = Some d"
  shows "importData now b None s = (imported d, Inr ())"
  using importData_cases [OF assms, of now None s] assms
  by (auto simp: importData_def transaction_def Let_def split: option.splits)

lemma no_settings_db_stores:
  "no_settings_db =
     \<lparr>settings = [], fixedExpenses = [rent], categories = [food], expenses = [groceries],
      monthlyArchives = [], dbInstance = True\<rparr>"
proof -
  have "importData march backup_without_settings None (getDB march fresh_db)
      = (imported \<lparr>bk_settings = None, bk_fixedExpenses = Some [rent],
                   bk_categories = Some [food], bk_expenses = Some [groceries],
                   bk_monthlyArchives = Some []\<rparr>, Inr ())"
    by (rule importData_uninterrupted) (simp add: backup_without_settings_def)
  then show ?thesis
    by (simp add: no_settings_db_def imported_def or_empty_def)
qed

lemma has_main_put:
  "st_id r = ''main'' \<Longrightarrow> store_get st_id ''main'' (store_put st_id r xs) \<noteq> None"
  by (simp add: store_get_put)

lemma has_main_updateSettings:
  assumes "has_main s"
  shows "has_main (fst (updateSettings now updates s))"
proof -
  from assms obtain cur where cur: "store_get st_id ''main'' (settings s) = Some cur"
    by (auto simp: has_main_def)
  then have "st_id cur = ''main''" by (auto dest: store_get_member)
  with cur settings_getDB [OF assms, of now] show ?thesis
    by (simp add: updateSettings_def getSettings_def Let_def has_main_def store_get_put)
qed

lemma has_main_other_stores [simp]:
  "has_main (s\<lparr>fixedExpenses := f\<rparr>) = has_main s"
  "has_main (s\<lparr>categories := c\<rparr>) = has_main s"
  "has_main (s\<lparr>expenses := e\<rparr>) = has_main s"
  "has_main (s\<lparr>monthlyArchives := a\<rparr>) = has_main s"
  by (simp_all add: has_main_def)

lemma getDB_idem [simp]: "getDB now (getDB now s) = getDB now s"
  by simp

lemma main_id: "store_get st_id ''main'' xs = Some y \<Longrightarrow> st_id y = ''main''"
  by (auto dest: store_get_member)

lemma has_main_closeMonth_open:
  assumes "has_main s" and "dbInstance s"
  shows "has_main (fst (closeMonth now month crash s))"
  using assms(1) unfolding closeMonth_general [OF assms(2)]
  by (auto simp: Let_def has_main_def store_get_put split: option.splits dest: main_id)

lemma closeMonth_getDB: "closeMonth now month crash (getDB now s) = closeMonth now month crash s"
  by (simp add: closeMonth_def getArchive_def)

lemma has_main_closeMonth:
  assumes "has_main s"
  shows "has_main (fst (closeMonth now month crash s))"
  using has_main_closeMonth_open [of "getDB now s" now month crash] assms
  by (simp add: has_main_getDB closeMonth_getDB)

section \<open>Lemmas: percentages\<close>

lemma calculatePercentage_spec: "calculatePercentage v t = spec_percentage v t"
  by (auto simp: calculatePercentage_def spec_percentage_def clamp_def Let_def)

lemma calculatePercentage_range: "0 \<le> calculatePercentage v t \<and> calculatePercentage v t \<le> 100"
  by (auto simp: calculatePercentage_def Let_def)

lemma overview_percentages:
  "let ov = snd (getBudgetOverview now s)
   in ov_fixedExpensesPercent ov
        = spec_percentage (ov_totalFixedExpenses ov) (ov_monthlyIncome ov)
    \<and> ov_budgetedPercent ov
        = spec_percentage (ov_totalBudgeted ov) (ov_availableForBudget ov)
    \<and> ov_spentPercent ov = spec_percentage (ov_totalSpent ov) (ov_totalBudgeted ov)"
  by (simp add: getBudgetOverview_def Let_def split_def calculatePercentage_spec)

lemma detail_percentage:
  "case snd (getCategoryWithSpending now categoryId s) of
     None \<Rightarrow> True
   | Some c \<Rightarrow> percentage c = spec_percentage (spent c) (cat_budgetLimit c)"
  by (simp add: getCategoryWithSpending_def Let_def split_def calculatePercentage_spec
      category.defs category_spending.defs split: option.split)

lemma summary_percentages:
  "list_all (\<lambda>c. percentage c = spec_percentage (spent c) (cat_budgetLimit c))
     (snd (getAllCategoriesWithSpending now s))"
  by (simp add: getAllCategoriesWithSpending_def Let_def split_def calculatePercentage_spec
      category.defs category_spending.defs list_all_iff)

lemma distribution_percentages:
  "snd (getCategoryDistribution now s)
     = map (\<lambda>c. \<lparr>di_name = cat_name c, di_value = spent c, di_color = cat_color c,
                  di_percentage = spec_percentage (spent c) (cat_budgetLimit c)\<rparr>)
           (filter (\<lambda>c. spent c > 0) (snd (getAllCategoriesWithSpending now s)))"
  using summary_percentages [of now s]
  by (simp add: getCategoryDistribution_def split_def list_all_iff Let_def)

lemma snapshot_percentages:
  "list_all (\<lambda>c. percentage c
                 = (if cat_budgetLimit c > 0 then spent c / cat_budgetLimit c * 100 else 0))
     (ar_categories (snapshot now m s))"
  by (simp add: snapshot_def Let_def category.defs category_spending.defs list_all_iff)


lemma closeMonth_returns:
  assumes "snd (closeMonth now month crash s) = Inr a"
  shows "a = snapshot now (or_default month (getCurrentMonth now)) (getDB now s)"
  using closeMonth_returns_open [of "getDB now s" now month crash a] assms
  by (simp add: closeMonth_getDB)

section \<open>Lemmas: export, import and well-formed databases\<close>

lemma store_get_Nil [simp]: "store_get key k [] = None"
  by (simp add: store_get_def)



lemma well_keyed_fold_put:
  "well_keyed key acc \<Longrightarrow> well_keyed key (fold (store_put key) ys acc)"
  by (induction ys arbitrary: acc) (simp_all add: well_keyed_put)






lemma all_main_put:
  "st_id r = ''main'' \<Longrightarrow> list_all (\<lambda>st. st_id st = ''main'') xs
   \<Longrightarrow> list_all (\<lambda>st. st_id st = ''main'') (store_put st_id r xs)"
  by (auto simp: list_all_iff dest: store_put_member)

lemma well_keyed_single [simp]: "well_keyed key [x]"
  by (simp add: well_keyed_def)

lemma well_formed_getDB: "well_formed s \<Longrightarrow> well_formed (getDB now s)"
  by (simp add: well_formed_def getDB_def initializeSettings_def well_keyed_put all_main_put
      split: option.split)

lemma well_formed_fresh: "well_formed fresh_db"
  by (simp add: well_formed_def fresh_db_def)

lemma well_keyed_delete: "well_keyed key xs \<Longrightarrow> well_keyed key (store_delete key k xs)"
  by (simp add: store_delete_def well_keyed_filter)

lemma well_keyed_add: "well_keyed key xs \<Longrightarrow> store_add key r xs = Some ys \<Longrightarrow> well_keyed key ys"
  by (auto simp: store_add_def well_keyed_put split: option.splits)

lemma well_keyed_purged: "well_keyed ex_id xs \<Longrightarrow> well_keyed ex_id (purged m xs)"
  by (simp add: purged_def well_keyed_filter)

lemma well_formed_closeMonth:
  assumes "well_formed s"
  shows "well_formed (fst (closeMonth now month crash s))"
proof -
  have "well_formed (fst (closeMonth now month crash t))" if "well_formed t" "dbInstance t" for t
    using that(1) unfolding closeMonth_general [OF that(2)]
    by (auto simp: Let_def well_formed_def well_keyed_put well_keyed_purged all_main_put
        split: option.splits dest: main_id)
  from this [of "getDB now s"] assms show ?thesis
    by (simp add: well_formed_getDB closeMonth_getDB)
qed

lemma well_formed_perform:
  assumes "well_formed s" and "imports_main op"
  shows "well_formed (perform now op s)"
proof -
  note db = well_formed_getDB [OF assms(1), of now, unfolded well_formed_def]
  show ?thesis
  proof (cases op)
    case (UpdateSettings updates)
    with db show ?thesis
      by (auto simp: updateSettings_def getSettings_def Let_def well_formed_def well_keyed_put
          all_main_put split: option.splits dest: main_id)
  next
    case (CreateFixedExpense newId d)
    with db show ?thesis
      by (auto simp: createFixedExpense_def Let_def well_formed_def
          split: option.splits dest: well_keyed_add)
  next
    case (UpdateFixedExpense ident updates)
    with db show ?thesis
      by (auto simp: updateFixedExpense_def Let_def well_formed_def well_keyed_put
          split: option.splits)
  next
    case (DeleteFixedExpense ident)
    with db show ?thesis
      by (simp add: deleteFixedExpense_def Let_def well_formed_def well_keyed_delete)
  next
    case (CreateCategory newId d)
    with db show ?thesis
      by (auto simp: createCategory_def Let_def well_formed_def
          split: option.splits dest: well_keyed_add)
  next
    case (UpdateCategory ident updates)
    with db show ?thesis
      by (auto simp: updateCategory_def Let_def well_formed_def well_keyed_put
          split: option.splits)
  next
    case (DeleteCategory ident crash)
    with db show ?thesis
      by (auto simp: deleteCategory_def Let_def well_formed_def transaction_def
          fold_delete_expenses well_keyed_delete well_keyed_filter split: option.splits)
  next
    case (CreateExpense newId d)
    with db show ?thesis
      by (auto simp: createExpense_def Let_def well_formed_def
          split: option.splits dest: well_keyed_add)
  next
    case (UpdateExpense ident updates)
    with db show ?thesis
      by (auto simp: updateExpense_def Let_def well_formed_def well_keyed_put
          split: option.splits)
  next
    case (DeleteExpense ident)
    with db show ?thesis
      by (simp add: deleteExpense_def Let_def well_formed_def well_keyed_delete)
  next
    case (ImportData b crash)
    show ?thesis
    proof (cases "data b")
      case None
      with ImportData assms(1) show ?thesis
        by (simp add: importData_def)
    next
      case (Some d)
      with assms(2) ImportData have "well_formed (imported d)"
        by (auto simp: well_formed_def imported_def imports_main_def well_keyed_fold_put
            split: option.splits)
      with importData_cases [OF Some, of now crash s] ImportData
        well_formed_getDB [OF assms(1), of now]
      show ?thesis by auto
    qed
  next
    case (CloseMonth month crash)
    with assms(1) show ?thesis by (simp add: well_formed_closeMonth)
  next
    case (DeleteArchive month)
    with db show ?thesis
      by (simp add: deleteArchive_def Let_def well_formed_def well_keyed_delete)
  qed
qed



section \<open>Lemmas: the month of the aggregation functions\<close>

lemma overview_of_clock_month:
  "ov_totalSpent (snd (getBudgetOverview now s))
     = sum_list (map ex_amount (filter (\<lambda>e. ex_month e = getCurrentMonth now) (expenses s)))"
  by (simp add: getBudgetOverview_def getExpensesForMonth_def getSettings_def
      getAllFixedExpenses_def getAllCategories_def split_def Let_def or_default_def
      index_only_def reduce_sum_sum_list)

section \<open>Lemmas: the month partition invariant at any time\<close>

lemma set_fold_put: "set (fold (store_put key) ys acc) \<subseteq> set ys \<union> set acc"
proof (induction ys arbitrary: acc)
  case Nil
  then show ?case by simp
next
  case (Cons y ys)
  from Cons [of "store_put key y acc"] set_store_put_subset [of key y acc]
  show ?case by auto
qed

lemma expenses_closeMonth: "set (expenses (fst (closeMonth now month crash s))) \<subseteq> set (expenses s)"
proof -
  have "set (expenses (fst (closeMonth now month crash t))) \<subseteq> set (expenses t)"
    if "dbInstance t" for t
    unfolding closeMonth_general [OF that]
    by (auto simp: Let_def purged_def split: option.splits)
  from this [of "getDB now s"] show ?thesis
    by (simp add: closeMonth_getDB)
qed

lemma expenses_deleteCategory:
  "set (expenses (fst (deleteCategory now ident crash s))) \<subseteq> set (expenses s)"
  by (auto simp: deleteCategory_def Let_def transaction_def fold_delete_expenses
      split: option.splits)

text \<open>The invariant holds in the empty store and every operation keeps it, for dates
  written \<open>YYYY-MM-DD\<close> and backups whose expenses satisfy it.\<close>

lemma month_consistent_perform:
  assumes "list_all month_consistent (expenses s)" and "dates_ok now op"
  shows "list_all month_consistent (expenses (perform now op s))"
proof (cases op)
  case (UpdateSettings updates)
  with assms(1) show ?thesis
    by (simp add: updateSettings_def getSettings_def Let_def split: option.split)
next
  case (CreateFixedExpense newId d)
  with assms(1) show ?thesis
    by (simp add: createFixedExpense_def Let_def split: option.split)
next
  case (UpdateFixedExpense ident updates)
  with assms(1) show ?thesis
    by (simp add: updateFixedExpense_def Let_def split: option.split)
next
  case (DeleteFixedExpense ident)
  with assms(1) show ?thesis
    by (simp add: deleteFixedExpense_def Let_def)
next
  case (CreateCategory newId d)
  with assms(1) show ?thesis
    by (simp add: createCategory_def Let_def split: option.split)
next
  case (UpdateCategory ident updates)
  with assms(1) show ?thesis
    by (simp add: updateCategory_def Let_def split: option.split)
next
  case (DeleteCategory ident crash)
  with assms(1) expenses_deleteCategory [of now ident crash s] show ?thesis
    by (auto simp: list_all_iff)
next
  case (CreateExpense newId d)
  with assms month_consistent_createExpense [OF assms(1), of d now newId] show ?thesis
    by (simp add: dates_ok_def)
next
  case (UpdateExpense ident u)
  with assms month_consistent_updateExpense [OF assms(1), of u now ident] show ?thesis
    by (simp add: dates_ok_def)
next
  case (DeleteExpense ident)
  with assms(1) show ?thesis
    by (simp add: deleteExpense_def Let_def store_delete_def list_all_iff)
next
  case (ImportData b crash)
  show ?thesis
  proof (cases "data b")
    case None
    with ImportData assms(1) show ?thesis
      by (simp add: importData_def)
  next
    case (Some d)
    with assms(2) ImportData have "list_all month_consistent (expenses (imported d))"
      using set_fold_put [of ex_id "or_empty (bk_expenses d)" "[]"]
      by (auto simp: dates_ok_def imported_def list_all_iff)
    with importData_cases [OF Some, of now crash s] ImportData assms(1) show ?thesis
      by auto
  qed
next
  case (CloseMonth month crash)
  with assms(1) expenses_closeMonth [of now month crash s] show ?thesis
    by (auto simp: list_all_iff)
next
  case (DeleteArchive month)
  with assms(1) show ?thesis
    by (simp add: deleteArchive_def Let_def)
qed

lemma overspent_summaries:
  "map (\<lambda>c. (cat_name c, cat_budgetLimit c, spent c, percentage c))
     (snd (getAllCategoriesWithSpending march overspent_db))
   = [(''Leisure'', 100, 150, 100), (''Unplanned'', 0, 50, 0)]"
  apply (simp add: getAllCategoriesWithSpending_def getAllCategories_def getExpensesForMonth_def
      overspent_db_def split_def Let_def index_all_def leisure_def unplanned_def index_only_def
      getCurrentMonth_march or_default_def fine_def over_budget_def group_by_category_def
      or_empty_def reduce_sum_def calculatePercentage_def category.defs category_spending.defs)
  done

section \<open>The claims\<close>

subsection \<open>Close-month conservation\<close>

text \<open>
  C1. The claim is that \<open>closeMonth(m)\<close> returns the archive for every store state
  without archive for \<open>m\<close>. In the store without Settings record, which
  \<open>importData\<close> leaves after a backup without settings, closing the month of the
  clock stores the archive and deletes the expenses of the month, and then fails:
  \<open>updateSettings\<close> finds no record, puts an object without \<open>id\<close>, and the
  call is rejected with a \<open>DataError\<close> instead of returning the archive.
\<close>

theorem closeMonth_without_settings:
  "dbInstance no_settings_db
   \<and> snd (getSettings march no_settings_db) = None
   \<and> snd (getArchive march ''2024-03'' no_settings_db) = None
   \<and> snd (getExpensesForMonth march (Some ''2024-03'') no_settings_db) = [groceries]
   \<and> snd (closeMonth march (Some ''2024-03'') None no_settings_db) = Inl DataError
   \<and> map ar_id (monthlyArchives (fst (closeMonth march (Some ''2024-03'') None no_settings_db)))
       = [''2024-03'']
   \<and> expenses (fst (closeMonth march (Some ''2024-03'') None no_settings_db)) = []"
proof -
  have 1: "dbInstance no_settings_db"
    by (simp add: no_settings_db_stores)
  have 2: "store_get ar_id ''2024-03'' (monthlyArchives no_settings_db) = None"
    by (simp add: no_settings_db_stores store_get_def)
  have 3: "store_get st_id ''main'' (settings no_settings_db) = None"
    by (simp add: no_settings_db_stores store_get_def)
  have 4: "index_only ex_month ''2024-03'' (expenses no_settings_db) = [groceries]"
    by (simp add: no_settings_db_stores index_only_def groceries_def)
  have 5: "purged ''2024-03'' (expenses no_settings_db) = []"
    by (simp add: purged_def 4) (simp add: no_settings_db_stores)
  have 6: "ar_id (snapshot march ''2024-03'' no_settings_db) = ''2024-03''"
    by (simp add: snapshot_def Let_def)
  have 7: "monthlyArchives no_settings_db = []"
    by (simp add: no_settings_db_stores)
  have run: "closeMonth march (Some ''2024-03'') None no_settings_db
      = (no_settings_db\<lparr>monthlyArchives := [snapshot march ''2024-03'' no_settings_db],
                         expenses := []\<rparr>, Inl DataError)"
    using closeMonth_open [OF 1 _ 2, of march] 3 5 7
    by (simp add: Let_def getCurrentMonth_march)
  show ?thesis
    unfolding run using 1 2 3 4 6
    by (simp add: getSettings_def getArchive_def getExpensesForMonth_def or_default_def)
qed

subsection \<open>Close-month exclusivity\<close>

text \<open>
  C2. Closing a month \<open>m\<close> for which an archive exists fails with the error of an
  already closed month (the specification's AlreadyClosedError), wherever the call
  might be cut short. The call does nothing but open the database if it was not open;
  on an open database the database after the call is the database before it: all five
  stores, the settings among them.
\<close>

theorem closeMonth_already_closed:
  assumes "m \<noteq> []" and "store_get ar_id m (monthlyArchives s) = Some a"
  shows "closeMonth now (Some m) crash s = (getDB now s, Inl (AlreadyClosedError m))
       \<and> (dbInstance s \<longrightarrow> closeMonth now (Some m) crash s = (s, Inl (AlreadyClosedError m)))"
  using assms by (simp add: closeMonth_def getArchive_def or_default_def)

theorem closeMonth_already_closed_witness:
  "''2024-03'' \<noteq> []
   \<and> store_get ar_id ''2024-03'' (monthlyArchives example_closed)
       = Some (snapshot march ''2024-03'' example_db)
   \<and> dbInstance example_closed
   \<and> closeMonth march (Some ''2024-03'') None example_closed
       = (example_closed, Inl (Error ''El mes 2024-03 ya fue cerrado anteriormente.''))"
  using closeMonth_already_closed [OF _ example_closed_facts(2), of march None]
    example_closed_facts
  by (simp add: AlreadyClosedError_def)

subsection \<open>Advancing the current month\<close>

text \<open>
  C3 (amended). An uninterrupted \<open>closeMonth\<close> of an unarchived month \<open>m\<close>, on an
  open database with its Settings record, sets \<open>Settings.currentMonth\<close> to the calendar
  month after \<open>m\<close> (December rolls over to January of the next year, otherwise the
  same year and month + 1) if and only if \<open>m\<close> is the month of the clock,
  \<open>getCurrentMonth()\<close>, whatever \<open>Settings.currentMonth\<close> holds; closing any other
  month leaves \<open>Settings.currentMonth\<close> unchanged.
\<close>

theorem closeMonth_advances_with_clock:
  assumes "dbInstance s" and "m \<noteq> []"
    and "store_get ar_id m (monthlyArchives s) = None"
    and "store_get st_id ''main'' (settings s) = Some st"
  shows "map_option st_currentMonth (snd (getSettings later (fst (closeMonth now (Some m) None s))))
       = Some (if m = getCurrentMonth now
               then next_calendar_month (getFullYear now) (getMonth now + 1)
               else st_currentMonth st)"
proof -
  from assms(4) have main: "st_id st = ''main''"
    by (auto dest: store_get_member)
  show ?thesis
  proof (cases "m = getCurrentMonth now")
    case True
    have "nextMonth m = next_calendar_month (getFullYear now) (getMonth now + 1)"
      unfolding True getCurrentMonth_month_key by (rule nextMonth_month_key)
    with True closeMonth_open [OF assms(1-3), of now] assms(1,4) main show ?thesis
      by (simp add: Let_def getSettings_def store_get_put)
  next
    case False
    with closeMonth_open [OF assms(1-3), of now] assms(1,4) show ?thesis
      by (simp add: Let_def getSettings_def)
  qed
qed

theorem closeMonth_advances_with_clock_witness:
  "dbInstance example_db \<and> ''2024-03'' \<noteq> []
   \<and> store_get ar_id ''2024-03'' (monthlyArchives example_db) = None
   \<and> store_get st_id ''main'' (settings example_db) = Some example_settings
   \<and> map_option st_currentMonth
        (snd (getSettings april (fst (closeMonth march (Some ''2024-03'') None example_db))))
       = Some ''2024-04''"
proof -
  have "next_calendar_month (getFullYear march) (getMonth march + 1) = ''2024-04''"
    by (simp add: march_def next_calendar_month_def month_key_def show_nat.simps digit_char_def
        padStart_def)
  with closeMonth_advances_with_clock [where s = example_db and m = "''2024-03''"
      and st = example_settings and now = march and later = april]
    example_db_facts(1,3) example_db_facts(2) [of "''2024-03''"]
  show ?thesis
    by (simp add: getCurrentMonth_march)
qed

text \<open>
  C3 as stated fails: with \<open>Settings.currentMonth = 2024-03\<close> and the clock in April
  2024, closing \<open>2024-03\<close> (the month that equals \<open>Settings.currentMonth\<close>)
  succeeds and leaves \<open>Settings.currentMonth\<close> at \<open>2024-03\<close>.
\<close>

theorem closeMonth_currentMonth_counterexample:
  "map_option st_currentMonth (snd (getSettings april example_db)) = Some ''2024-03''
   \<and> \<not> isl (snd (closeMonth april (Some ''2024-03'') None example_db))
   \<and> map_option st_currentMonth
        (snd (getSettings april (fst (closeMonth april (Some ''2024-03'') None example_db))))
       = Some ''2024-03''"
proof -
  have "closeMonth april (Some ''2024-03'') None example_db =
     (example_db\<lparr>monthlyArchives := store_put ar_id (snapshot april ''2024-03'' example_db)
                                        (monthlyArchives example_db),
                 expenses := purged ''2024-03'' (expenses example_db)\<rparr>,
      Inr (snapshot april ''2024-03'' example_db))"
    using closeMonth_open [OF example_db_facts(1) _ example_db_facts(2), of "''2024-03''" april]
    by (simp add: getCurrentMonth_april Let_def)
  then show ?thesis
    using example_db_facts(1,3)
    by (simp add: getSettings_def example_settings_def)
qed

subsection \<open>Category deletion cascade\<close>

text \<open>
  C4. On an open database, \<open>deleteCategory(id)\<close> removes the category and every
  expense that references it, whatever the month of the expense, and touches nothing
  else: the categories and expenses of other categories and the other stores are as
  before. It does so as one unit: wherever the call is cut short, the database is
  either exactly as before (nothing removed) or exactly as after the complete call, so
  no state with the category gone and one of its expenses left can be observed.
\<close>

theorem deleteCategory_atomic:
  assumes "dbInstance s" and "well_keyed ex_id (expenses s)"
  shows "deleteCategory now ident None s =
           (s\<lparr>expenses := filter (\<lambda>e. ex_categoryId e \<noteq> ident) (expenses s),
              categories := filter (\<lambda>c. cat_id c \<noteq> ident) (categories s)\<rparr>, Inr ())
       \<and> (\<forall>crash. deleteCategory now ident crash s = (s, Inl Interrupted)
                 \<or> deleteCategory now ident crash s = deleteCategory now ident None s)"
proof
  show "deleteCategory now ident None s =
           (s\<lparr>expenses := filter (\<lambda>e. ex_categoryId e \<noteq> ident) (expenses s),
              categories := filter (\<lambda>c. cat_id c \<noteq> ident) (categories s)\<rparr>, Inr ())"
    by (rule deleteCategory_open [OF assms])
  show "\<forall>crash. deleteCategory now ident crash s = (s, Inl Interrupted)
                 \<or> deleteCategory now ident crash s = deleteCategory now ident None s"
    using assms(1)
    by (auto simp: deleteCategory_def transaction_def Let_def split: option.splits)
qed

theorem deleteCategory_atomic_witness:
  "dbInstance example_db \<and> well_keyed ex_id (expenses example_db)
   \<and> deleteCategory march ''c1'' None example_db
       = (example_db\<lparr>expenses := [], categories := []\<rparr>, Inr ())
   \<and> (deleteCategory march ''c1'' (Some 1) example_db = (example_db, Inl Interrupted)
      \<or> deleteCategory march ''c1'' (Some 1) example_db
          = deleteCategory march ''c1'' None example_db)"
proof -
  have 1: "filter (\<lambda>e. ex_categoryId e \<noteq> ''c1'') (expenses example_db) = []"
    by (simp add: example_db_def february_dinner_def groceries_def lunch_def)
  have 2: "filter (\<lambda>c. cat_id c \<noteq> ''c1'') (categories example_db) = []"
    by (simp add: example_db_def food_def)
  from deleteCategory_atomic [OF example_db_facts(1) example_db_well_keyed, of march "''c1''"]
  show ?thesis
    unfolding 1 2 using example_db_facts(1) example_db_well_keyed by blast
qed

subsection \<open>Month partition invariant\<close>

text \<open>
  C5 (amended). For dates written \<open>YYYY-MM-DD\<close>: when every expense record of the
  store has \<open>month\<close> equal to the first seven characters of its \<open>date\<close>, the
  same holds of every record after \<open>createExpense\<close> and after \<open>updateExpense\<close>.
  \<open>createExpense\<close> with an id that is not yet a key returns the new record and
  stores it under that id, with the date given (or today's from the clock) and with
  \<open>month\<close> the first seven characters of that date. \<open>updateExpense\<close> of a
  record of the store returns the updated record and stores it under its id, with the
  date of the patch (or its old date when the patch has none) and with \<open>month\<close> the
  first seven characters of that date: a patch that changes the date recomputes the
  month, and a month supplied in the patch is ignored.
\<close>

theorem month_partition_invariant:
  assumes "list_all month_consistent (expenses s)"
  shows "(is_date (or_default (ed_date d) (hd (split_on (CHR ''T'') (toISOString now))))
          \<longrightarrow> list_all month_consistent (expenses (fst (createExpense now newId d s)))
            \<and> (store_get ex_id newId (expenses s) = None
               \<longrightarrow> (\<exists>e. snd (createExpense now newId d s) = Inr e
                      \<and> store_get ex_id newId (expenses (fst (createExpense now newId d s)))
                          = Some e
                      \<and> ex_date e
                          = or_default (ed_date d) (hd (split_on (CHR ''T'') (toISOString now)))
                      \<and> ex_month e = take 7 (ex_date e))))
       \<and> ((case eu_date u of None \<Rightarrow> True | Some x \<Rightarrow> is_date x)
          \<longrightarrow> list_all month_consistent (expenses (fst (updateExpense now ident u s)))
            \<and> (store_get ex_id ident (expenses s) = Some current
               \<longrightarrow> (\<exists>e. snd (updateExpense now ident u s) = Inr e
                      \<and> store_get ex_id ident (expenses (fst (updateExpense now ident u s)))
                          = Some e
                      \<and> ex_date e = (case eu_date u of None \<Rightarrow> ex_date current | Some x \<Rightarrow> x)
                      \<and> ex_month e = take 7 (ex_date e))))"
proof (intro conjI impI)
  assume "is_date (or_default (ed_date d) (hd (split_on (CHR ''T'') (toISOString now))))"
  then show "list_all month_consistent (expenses (fst (createExpense now newId d s)))"
    by (rule month_consistent_createExpense [OF assms])
next
  assume date: "is_date (or_default (ed_date d) (hd (split_on (CHR ''T'') (toISOString now))))"
    and free: "store_get ex_id newId (expenses s) = None"
  from createExpense_stored [OF free, of now d] month_of_date [OF date]
  show "\<exists>e. snd (createExpense now newId d s) = Inr e
      \<and> store_get ex_id newId (expenses (fst (createExpense now newId d s))) = Some e
      \<and> ex_date e = or_default (ed_date d) (hd (split_on (CHR ''T'') (toISOString now)))
      \<and> ex_month e = take 7 (ex_date e)"
    by auto
next
  assume "case eu_date u of None \<Rightarrow> True | Some x \<Rightarrow> is_date x"
  then show "list_all month_consistent (expenses (fst (updateExpense now ident u s)))"
    by (rule month_consistent_updateExpense [OF assms])
next
  assume date: "case eu_date u of None \<Rightarrow> True | Some x \<Rightarrow> is_date x"
    and found: "store_get ex_id ident (expenses s) = Some current"
  from found have "current \<in> set (expenses s)"
    by (auto dest: store_get_member)
  with assms have cur: "ex_month current = take 7 (ex_date current)"
    by (simp add: list_all_iff month_consistent_def)
  show "\<exists>e. snd (updateExpense now ident u s) = Inr e
      \<and> store_get ex_id ident (expenses (fst (updateExpense now ident u s))) = Some e
      \<and> ex_date e = (case eu_date u of None \<Rightarrow> ex_date current | Some x \<Rightarrow> x)
      \<and> ex_month e = take 7 (ex_date e)"
  proof (cases "eu_date u")
    case None
    with updateExpense_stored [OF found, of now u] cur show ?thesis
      by auto
  next
    case (Some x)
    with date have x: "is_date x" by simp
    then have "x \<noteq> []" by (auto simp: is_date_def)
    with updateExpense_stored [OF found, of now u] Some month_of_date [OF x] show ?thesis
      by auto
  qed
qed

theorem month_partition_invariant_witness:
  "list_all month_consistent (expenses example_db)
   \<and> is_date (or_default (ed_date taxi) (hd (split_on (CHR ''T'') (toISOString march))))
   \<and> store_get ex_id ''e3'' (expenses example_db) = None
   \<and> list_all month_consistent (expenses (fst (createExpense march ''e3'' taxi example_db)))
   \<and> map_option ex_date
        (store_get ex_id ''e3'' (expenses (fst (createExpense march ''e3'' taxi example_db))))
       = Some ''2024-03-21''
   \<and> map_option ex_month
        (store_get ex_id ''e3'' (expenses (fst (createExpense march ''e3'' taxi example_db))))
       = Some ''2024-03''
   \<and> (case eu_date move_to_april of None \<Rightarrow> True | Some x \<Rightarrow> is_date x)
   \<and> store_get ex_id ''e1'' (expenses example_db) = Some groceries
   \<and> list_all month_consistent
        (expenses (fst (updateExpense march ''e1'' move_to_april example_db)))
   \<and> map_option ex_date
        (store_get ex_id ''e1''
           (expenses (fst (updateExpense march ''e1'' move_to_april example_db))))
       = Some ''2024-04-01''
   \<and> map_option ex_month
        (store_get ex_id ''e1''
           (expenses (fst (updateExpense march ''e1'' move_to_april example_db))))
       = Some ''2024-04''
   \<and> map ex_month (expenses (fst (updateExpense march ''e1'' move_to_april example_db)))
        = [''2024-02'', ''2024-04'', ''2024-03'']"
proof -
  have 1: "is_date (or_default (ed_date taxi) (hd (split_on (CHR ''T'') (toISOString march))))"
    by (simp add: taxi_def or_default_def is_date_examples)
  have 2: "case eu_date move_to_april of None \<Rightarrow> True | Some x \<Rightarrow> is_date x"
    by (simp add: move_to_april_def is_date_examples)
  have 3: "store_get ex_id ''e3'' (expenses example_db) = None"
    by (simp add: example_db_def store_get_def february_dinner_def groceries_def lunch_def)
  have 4: "store_get ex_id ''e1'' (expenses example_db) = Some groceries"
    by (simp add: example_db_def store_get_def february_dinner_def groceries_def lunch_def)
  have 5: "or_default (ed_date taxi) (hd (split_on (CHR ''T'') (toISOString march)))
      = ''2024-03-21''"
    by (simp add: taxi_def or_default_def)
  have 6: "eu_date move_to_april = Some ''2024-04-01''"
    by (simp add: move_to_april_def)
  from month_partition_invariant [OF example_db_consistent,
      of taxi march "''e3''" move_to_april "''e1''" groceries]
    1 2 3 4 example_db_consistent months_after_update
  show ?thesis
    unfolding 5 6 by auto
qed

text \<open>
  C5 as stated fails: the store checks no date and takes the month from
  \<open>date.split('-')\<close>. \<open>createExpense\<close> with the date \<open>2024-3-5\<close> stores a
  record whose \<open>month\<close> is \<open>2024-3\<close>, while the first seven characters of its
  date are \<open>2024-3-\<close>.
\<close>

theorem month_partition_counterexample:
  "store_get ex_id ''e3'' (expenses example_db) = None
   \<and> \<not> isl (snd (createExpense march ''e3'' short_date example_db))
   \<and> store_get ex_id ''e3'' (expenses (fst (createExpense march ''e3'' short_date example_db)))
       = Some (projr (snd (createExpense march ''e3'' short_date example_db)))
   \<and> ex_date (projr (snd (createExpense march ''e3'' short_date example_db))) = ''2024-3-5''
   \<and> ex_month (projr (snd (createExpense march ''e3'' short_date example_db))) = ''2024-3''
   \<and> take 7 ''2024-3-5'' = ''2024-3-''
   \<and> \<not> month_consistent (projr (snd (createExpense march ''e3'' short_date example_db)))"
  by (simp add: createExpense_def short_date_def example_db_def or_default_def element_def
      template_def store_add_def store_get_def february_dinner_def groceries_def lunch_def
      month_consistent_def Let_def)

subsection \<open>Settings singleton\<close>

text \<open>
  C6 (amended). The first access to the store leaves a Settings record with id
  \<open>main\<close>, and every later operation preserves its existence: a reading
  function, which at most opens the database, and every writing operation, an import
  included when the backup it accepts carries settings with id \<open>main\<close>.
\<close>

theorem settings_singleton:
  "(\<not> dbInstance s \<longrightarrow> has_main (getDB now s))
   \<and> (has_main s \<longrightarrow> has_main (getDB later s))
   \<and> (has_main s \<longrightarrow> keeps_settings op \<longrightarrow> has_main (perform later op s))"
proof (intro conjI impI)
  assume "\<not> dbInstance s"
  then show "has_main (getDB now s)" by (rule has_main_first_access)
next
  assume "has_main s"
  then show "has_main (getDB later s)" by (rule has_main_getDB)
next
  assume main: "has_main s" and keeps: "keeps_settings op"
  note same = settings_getDB [OF main, of later]
  show "has_main (perform later op s)"
  proof (cases op)
    case (UpdateSettings updates)
    with main show ?thesis by (simp add: has_main_updateSettings)
  next
    case (CreateFixedExpense newId d)
    with main same show ?thesis
      by (simp add: createFixedExpense_def Let_def has_main_def split: option.split)
  next
    case (UpdateFixedExpense ident updates)
    with main same show ?thesis
      by (simp add: updateFixedExpense_def Let_def has_main_def split: option.split)
  next
    case (DeleteFixedExpense ident)
    with main same show ?thesis
      by (simp add: deleteFixedExpense_def Let_def has_main_def)
  next
    case (CreateCategory newId d)
    with main same show ?thesis
      by (simp add: createCategory_def Let_def has_main_def split: option.split)
  next
    case (UpdateCategory ident updates)
    with main same show ?thesis
      by (simp add: updateCategory_def Let_def has_main_def split: option.split)
  next
    case (DeleteCategory ident crash)
    with main same show ?thesis
      by (simp add: deleteCategory_def Let_def has_main_def transaction_def
          fold_delete_expenses split: option.split)
  next
    case (CreateExpense newId d)
    with main same show ?thesis
      by (simp add: createExpense_def Let_def has_main_def split: option.split)
  next
    case (UpdateExpense ident updates)
    with main same show ?thesis
      by (simp add: updateExpense_def Let_def has_main_def split: option.split)
  next
    case (DeleteExpense ident)
    with main same show ?thesis
      by (simp add: deleteExpense_def Let_def has_main_def)
  next
    case (ImportData b crash)
    show ?thesis
    proof (cases "data b")
      case None
      with ImportData main show ?thesis
        by (simp add: importData_def)
    next
      case (Some d)
      with keeps ImportData obtain st where st: "bk_settings d = Some st" "st_id st = ''main''"
        by (auto simp: keeps_settings_def)
      have "has_main (imported d)"
        using st by (simp add: has_main_def imported_def store_get_def)
      with importData_cases [OF Some, of later crash s] ImportData has_main_getDB [OF main, of later]
      show ?thesis by auto
    qed
  next
    case (CloseMonth month crash)
    with main show ?thesis by (simp add: has_main_closeMonth)
  next
    case (DeleteArchive month)
    with main same show ?thesis
      by (simp add: deleteArchive_def Let_def has_main_def)
  qed
qed

theorem settings_singleton_witness:
  "\<not> dbInstance fresh_db \<and> has_main (getDB march fresh_db)
   \<and> has_main example_db \<and> has_main (getDB april example_db)
   \<and> keeps_settings (ImportData backup_with_settings None)
   \<and> has_main (perform april (ImportData backup_with_settings None) example_db)"
proof -
  have 1: "\<not> dbInstance fresh_db" by (simp add: fresh_db_def)
  have 2: "has_main example_db"
    by (simp add: has_main_def example_db_facts)
  have 3: "keeps_settings (ImportData backup_with_settings None)"
    by (simp add: keeps_settings_def backup_with_settings_def example_settings_def)
  from settings_singleton [where s = fresh_db and now = march]
    settings_singleton [where s = example_db and later = april
      and op = "ImportData backup_with_settings None"]
    1 2 3 show ?thesis by simp
qed

text \<open>
  C6 as stated fails: after the first access the record exists; \<open>importData\<close>
  accepts a backup whose \<open>data\<close> has no settings, clears the Settings store and
  puts nothing back, and \<open>getSettings\<close> then finds no record.
\<close>

theorem settings_singleton_counterexample:
  "has_main (getDB march fresh_db)
   \<and> snd (importData march backup_without_settings None (getDB march fresh_db)) = Inr ()
   \<and> \<not> has_main (fst (importData march backup_without_settings None (getDB march fresh_db)))
   \<and> snd (getSettings april
            (fst (importData march backup_without_settings None (getDB march fresh_db)))) = None"
proof -
  have 1: "has_main (getDB march fresh_db)"
    by (rule has_main_first_access) (simp add: fresh_db_def)
  have 2: "importData march backup_without_settings None (getDB march fresh_db)
      = (imported \<lparr>bk_settings = None, bk_fixedExpenses = Some [rent],
                   bk_categories = Some [food], bk_expenses = Some [groceries],
                   bk_monthlyArchives = Some []\<rparr>, Inr ())"
    by (rule importData_uninterrupted) (simp add: backup_without_settings_def)
  show ?thesis
    unfolding 2 using 1
    by (simp add: imported_def has_main_def getSettings_def store_get_def)
qed

subsection \<open>Percentages\<close>

text \<open>
  C7 (amended). Every percentage the aggregation functions return
  (\<open>getBudgetOverview\<close>, \<open>getCategoryWithSpending\<close>,
  \<open>getAllCategoriesWithSpending\<close>, \<open>getCategoryDistribution\<close>) equals
  \<open>clamp(0, 100, value / total * 100)\<close>, with 0 for a total that is not positive: a
  limit of 0 with 50 spent gives 0, a limit of 100 with 150 spent gives 100, and none
  lies outside 0 to 100. The per-category percentage stored in a MonthlyArchive
  snapshot is \<open>spent / budgetLimit * 100\<close> without the clamp, and 0 when the limit
  is not positive.
\<close>

theorem percentage_formula:
  "(let ov = snd (getBudgetOverview now s)
    in ov_fixedExpensesPercent ov
         = spec_percentage (ov_totalFixedExpenses ov) (ov_monthlyIncome ov)
     \<and> ov_budgetedPercent ov
         = spec_percentage (ov_totalBudgeted ov) (ov_availableForBudget ov)
     \<and> ov_spentPercent ov = spec_percentage (ov_totalSpent ov) (ov_totalBudgeted ov))
   \<and> (case snd (getCategoryWithSpending now categoryId s) of
         None \<Rightarrow> True
       | Some c \<Rightarrow> percentage c = spec_percentage (spent c) (cat_budgetLimit c))
   \<and> list_all (\<lambda>c. percentage c = spec_percentage (spent c) (cat_budgetLimit c))
        (snd (getAllCategoriesWithSpending now s))
   \<and> snd (getCategoryDistribution now s)
        = map (\<lambda>c. \<lparr>di_name = cat_name c, di_value = spent c, di_color = cat_color c,
                     di_percentage = spec_percentage (spent c) (cat_budgetLimit c)\<rparr>)
              (filter (\<lambda>c. spent c > 0) (snd (getAllCategoriesWithSpending now s)))
   \<and> (case snd (closeMonth now month crash s) of
         Inl _ \<Rightarrow> True
       | Inr a \<Rightarrow>
           list_all (\<lambda>c. percentage c
                       = (if cat_budgetLimit c > 0 then spent c / cat_budgetLimit c * 100 else 0))
             (ar_categories a))
   \<and> spec_percentage 50 0 = 0 \<and> spec_percentage 150 100 = 100
   \<and> 0 \<le> spec_percentage v t \<and> spec_percentage v t \<le> 100"
proof -
  have archived: "case snd (closeMonth now month crash s) of
         Inl _ \<Rightarrow> True
       | Inr a \<Rightarrow>
           list_all (\<lambda>c. percentage c
                       = (if cat_budgetLimit c > 0 then spent c / cat_budgetLimit c * 100 else 0))
             (ar_categories a)"
  proof (cases "snd (closeMonth now month crash s)")
    case (Inl e)
    then show ?thesis by simp
  next
    case (Inr a)
    from closeMonth_returns [OF this] Inr snapshot_percentages show ?thesis
      by simp
  qed
  have examples: "spec_percentage 50 0 = 0 \<and> spec_percentage 150 100 = 100"
    by (simp add: spec_percentage_def clamp_def)
  have range: "0 \<le> spec_percentage v t \<and> spec_percentage v t \<le> 100"
    by (simp add: spec_percentage_def clamp_def)
  from overview_percentages [of now s] detail_percentage [of now categoryId s]
    summary_percentages [of now s] distribution_percentages [of now s] archived examples range
  show ?thesis by blast
qed

theorem percentage_formula_witness:
  "list_all (\<lambda>c. percentage c = spec_percentage (spent c) (cat_budgetLimit c))
        (snd (getAllCategoriesWithSpending march overspent_db))
   \<and> map (\<lambda>c. (cat_name c, cat_budgetLimit c, spent c, percentage c))
        (snd (getAllCategoriesWithSpending march overspent_db))
       = [(''Leisure'', 100, 150, 100), (''Unplanned'', 0, 50, 0)]
   \<and> spec_percentage 50 0 = 0 \<and> spec_percentage 150 100 = 100"
  using percentage_formula [of march overspent_db "''c2''" None None 0 0] overspent_summaries
  by simp

text \<open>
  C7 as stated fails for the archive: closing the month of a category with limit 100
  and 150 spent stores the percentage 150, where the clamped formula gives 100.
\<close>

theorem archived_percentage_counterexample:
  "\<not> isl (snd (closeMonth march (Some ''2024-03'') None overspent_db))
   \<and> map (\<lambda>c. (cat_name c, cat_budgetLimit c, spent c, percentage c))
        (ar_categories (projr (snd (closeMonth march (Some ''2024-03'') None overspent_db))))
       = [(''Leisure'', 100, 150, 150), (''Unplanned'', 0, 50, 0)]
   \<and> spec_percentage 150 100 = 100"
proof -
  have 1: "dbInstance overspent_db"
    and 2: "store_get ar_id ''2024-03'' (monthlyArchives overspent_db) = None"
    and 3: "store_get st_id ''main'' (settings overspent_db) = Some example_settings"
    by (simp_all add: overspent_db_def store_get_def example_settings_def)
  have 4: "map (\<lambda>c. (cat_name c, cat_budgetLimit c, spent c, percentage c))
        (ar_categories (snapshot march ''2024-03'' overspent_db))
       = [(''Leisure'', 100, 150, 150), (''Unplanned'', 0, 50, 0)]"
    by (simp add: snapshot_def overspent_db_def Let_def index_all_def leisure_def unplanned_def
        index_only_def fine_def over_budget_def category.defs category_spending.defs)
  from closeMonth_open_stores(4) [OF 1 _ 2 3, of march] 4 show ?thesis
    by (simp add: spec_percentage_def clamp_def)
qed

subsection \<open>Export and import round trip\<close>



subsection \<open>Target month of the aggregation functions\<close>

text \<open>
  C9. The claim is that each of the five read functions takes an optional target month
  and computes over the expenses of that month. The functions declare no parameter, so
  a call such as \<open>getBudgetOverview('2024-02')\<close> is the call without argument: with
  the clock in March 2024, all five compute over the 800 spent in March, while the
  expenses of February, the month asked for, sum to 150.
\<close>

theorem aggregation_ignores_month:
  "getCurrentMonth march = ''2024-03''
   \<and> ov_totalSpent (snd (getBudgetOverview march example_db)) = 800
   \<and> map spent (snd (getAllCategoriesWithSpending march example_db)) = [800]
   \<and> map di_value (snd (getCategoryDistribution march example_db)) = [800]
   \<and> map ci_actual (snd (getBudgetVsActual march example_db)) = [800]
   \<and> map_option spent (snd (getCategoryWithSpending march ''c1'' example_db)) = Some 800
   \<and> reduce_sum ex_amount (snd (getExpensesForMonth march (Some ''2024-02'') example_db)) = 150"
proof -
  have summaries: "map spent (snd (getAllCategoriesWithSpending march example_db)) = [800]"
    by (simp add: getAllCategoriesWithSpending_def getAllCategories_def getExpensesForMonth_def
      example_db_def split_def Let_def index_all_def food_def index_only_def
      getCurrentMonth_march or_default_def february_dinner_def groceries_def lunch_def
      group_by_category_def or_empty_def reduce_sum_def calculatePercentage_def
      category.defs category_spending.defs)
  have overview: "ov_totalSpent (snd (getBudgetOverview march example_db)) = 800"
    by (simp add: overview_of_clock_month getCurrentMonth_march example_db_def
        february_dinner_def groceries_def lunch_def)
  have distribution: "map di_value (snd (getCategoryDistribution march example_db)) = [800]"
    using summaries
    by (auto simp: getCategoryDistribution_def split_def Let_def map_eq_Cons_conv)
  have comparison: "map ci_actual (snd (getBudgetVsActual march example_db)) = [800]"
    using summaries
    by (simp add: getBudgetVsActual_def split_def Let_def comp_def)
  have detail: "map_option spent (snd (getCategoryWithSpending march ''c1'' example_db)) = Some 800"
    by (simp add: getCategoryWithSpending_def getCategory_def getExpensesByCategory_def
      getExpensesForMonth_def example_db_def split_def Let_def food_def index_only_def
      getCurrentMonth_march or_default_def february_dinner_def groceries_def lunch_def
      store_get_def reduce_sum_def category.defs category_spending.defs)
  have february:
    "reduce_sum ex_amount (snd (getExpensesForMonth march (Some ''2024-02'') example_db)) = 150"
    by (simp add: getExpensesForMonth_def example_db_def Let_def index_only_def or_default_def
      february_dinner_def groceries_def lunch_def reduce_sum_def)
  from getCurrentMonth_march overview summaries distribution comparison detail february
  show ?thesis by blast
qed

subsection \<open>Spending of an unknown category\<close>

text \<open>
  C10. \<open>getCategoryWithSpending(id)\<close> for an \<open>id\<close> that is the key of no
  category returns \<open>null\<close> (here \<open>None\<close>), not an error and not a partial
  record. The call does nothing but open the database if it was not open; on an open
  database it leaves the database as it was.
\<close>

theorem getCategoryWithSpending_unknown:
  assumes "store_get cat_id categoryId (categories s) = None"
  shows "getCategoryWithSpending now categoryId s = (getDB now s, None)
       \<and> (dbInstance s \<longrightarrow> getCategoryWithSpending now categoryId s = (s, None))"
  using assms
  by (simp add: getCategoryWithSpending_def getCategory_def getExpensesByCategory_def
      getExpensesForMonth_def)

theorem getCategoryWithSpending_unknown_witness:
  "store_get cat_id ''c9'' (categories example_db) = None \<and> dbInstance example_db
   \<and> getCategoryWithSpending march ''c9'' example_db = (example_db, None)"
proof -
  have 1: "dbInstance example_db" by (simp add: example_db_def)
  have 2: "store_get cat_id ''c9'' (categories example_db) = None"
    by (simp add: example_db_def store_get_def food_def)
  from getCategoryWithSpending_unknown [OF 2, of march] 1 2 show ?thesis
    by simp
qed

end
